theory Spec2Isabelle
  imports Complex_Main "HOL-Library.Word"
begin

unbundle bit_operations_syntax

section \<open>Single-precision values\<close>

text \<open>
  A \<^verbatim>\<open>float\<close> of the source is a finite real, one of the two infinities, or NaN.
  Every operation is exact on finite values (rounding, overflow of a finite result and the
  sign of zero are not modelled) and follows IEEE 754 on the special values, so that a
  division by zero, the square root of a negative number and the comparisons with NaN
  behave in the model as they do on the device.
\<close>

datatype float = Fin real | PInf | MInf | NaN

fun fneg :: "float \<Rightarrow> float" where
  "fneg (Fin a) = Fin (- a)"
| "fneg PInf = MInf"
| "fneg MInf = PInf"
| "fneg NaN = NaN"

fun fadd :: "float \<Rightarrow> float \<Rightarrow> float" where
  "fadd (Fin a) (Fin b) = Fin (a + b)"
| "fadd NaN _ = NaN"
| "fadd _ NaN = NaN"
| "fadd PInf MInf = NaN"
| "fadd MInf PInf = NaN"
| "fadd PInf _ = PInf"
| "fadd _ PInf = PInf"
| "fadd MInf _ = MInf"
| "fadd _ MInf = MInf"

definition fsub :: "float \<Rightarrow> float \<Rightarrow> float" where
  "fsub a b = fadd a (fneg b)"

fun fmul :: "float \<Rightarrow> float \<Rightarrow> float" where
  "fmul (Fin a) (Fin b) = Fin (a * b)"
| "fmul NaN _ = NaN"
| "fmul _ NaN = NaN"
| "fmul PInf (Fin b) = (if b = 0 then NaN else if 0 < b then PInf else MInf)"
| "fmul MInf (Fin b) = (if b = 0 then NaN else if 0 < b then MInf else PInf)"
| "fmul (Fin a) PInf = (if a = 0 then NaN else if 0 < a then PInf else MInf)"
| "fmul (Fin a) MInf = (if a = 0 then NaN else if 0 < a then MInf else PInf)"
| "fmul PInf PInf = PInf"
| "fmul MInf MInf = PInf"
| "fmul PInf MInf = MInf"
| "fmul MInf PInf = MInf"

fun fdiv :: "float \<Rightarrow> float \<Rightarrow> float" where
  "fdiv (Fin a) (Fin b) =
     (if b = 0 then (if a = 0 then NaN else if 0 < a then PInf else MInf) else Fin (a / b))"
| "fdiv NaN _ = NaN"
| "fdiv _ NaN = NaN"
| "fdiv (Fin a) _ = Fin 0"
| "fdiv PInf (Fin b) = (if 0 \<le> b then PInf else MInf)"
| "fdiv MInf (Fin b) = (if 0 \<le> b then MInf else PInf)"
| "fdiv _ _ = NaN"

fun flt :: "float \<Rightarrow> float \<Rightarrow> bool" where
  "flt (Fin a) (Fin b) = (a < b)"
| "flt NaN _ = False"
| "flt _ NaN = False"
| "flt _ MInf = False"
| "flt MInf _ = True"
| "flt PInf _ = False"
| "flt _ PInf = True"

fun feq :: "float \<Rightarrow> float \<Rightarrow> bool" where
  "feq NaN _ = False"
| "feq _ NaN = False"
| "feq a b = (a = b)"

definition fle :: "float \<Rightarrow> float \<Rightarrow> bool" where
  "fle a b = (flt a b \<or> feq a b)"

definition fgt :: "float \<Rightarrow> float \<Rightarrow> bool" where
  "fgt a b = flt b a"

definition fge :: "float \<Rightarrow> float \<Rightarrow> bool" where
  "fge a b = fle b a"

definition fne :: "float \<Rightarrow> float \<Rightarrow> bool" where
  "fne a b = (\<not> feq a b)"

text \<open>\<^verbatim>\<open>fminf\<close> and \<^verbatim>\<open>fmaxf\<close> return the other argument when one is NaN.\<close>

definition fminf :: "float \<Rightarrow> float \<Rightarrow> float" where
  "fminf a b = (if a = NaN then b else if b = NaN then a else if flt a b then a else b)"

definition fmaxf :: "float \<Rightarrow> float \<Rightarrow> float" where
  "fmaxf a b = (if a = NaN then b else if b = NaN then a else if flt a b then b else a)"

fun fabsf :: "float \<Rightarrow> float" where
  "fabsf (Fin a) = Fin \<bar>a\<bar>"
| "fabsf NaN = NaN"
| "fabsf _ = PInf"

fun fsqrt_rn :: "float \<Rightarrow> float" where
  "fsqrt_rn (Fin a) = (if a < 0 then NaN else Fin (sqrt a))"
| "fsqrt_rn PInf = PInf"
| "fsqrt_rn _ = NaN"

definition rsqrtf :: "float \<Rightarrow> float" where
  "rsqrtf a = fdiv (Fin 1) (fsqrt_rn a)"

text \<open>Truncation towards zero, the rounding of a C conversion from float to integer.\<close>

definition trunc :: "real \<Rightarrow> int" where
  "trunc a = (if 0 \<le> a then \<lfloor>a\<rfloor> else \<lceil>a\<rceil>)"

text \<open>Integer division and remainder of C: the quotient is truncated towards zero.\<close>

definition c_div :: "int \<Rightarrow> int \<Rightarrow> int" where
  "c_div a b = sgn a * sgn b * (\<bar>a\<bar> div \<bar>b\<bar>)"

definition c_mod :: "int \<Rightarrow> int \<Rightarrow> int" where
  "c_mod a b = a - b * c_div a b"

fun fmodf :: "float \<Rightarrow> float \<Rightarrow> float" where
  "fmodf (Fin a) (Fin b) = (if b = 0 then NaN else Fin (a - of_int (trunc (a / b)) * b))"
| "fmodf NaN _ = NaN"
| "fmodf _ NaN = NaN"
| "fmodf (Fin a) _ = Fin a"
| "fmodf _ _ = NaN"

definition is_int :: "real \<Rightarrow> bool" where
  "is_int y = (y = of_int \<lfloor>y\<rfloor>)"

text \<open>\<^verbatim>\<open>powf\<close> with the special cases of the C standard (Annex F).\<close>

fun powf :: "float \<Rightarrow> float \<Rightarrow> float" where
  "powf a (Fin y) =
     (if y = 0 then Fin 1
      else case a of
        NaN \<Rightarrow> NaN
      | Fin b \<Rightarrow>
          (if b = 0 then (if y < 0 then PInf else Fin 0)
           else if 0 < b then Fin (b powr y)
           else if is_int y then Fin ((if even \<lfloor>y\<rfloor> then 1 else - 1) * (\<bar>b\<bar> powr y))
           else NaN)
      | PInf \<Rightarrow> (if y < 0 then Fin 0 else PInf)
      | MInf \<Rightarrow> (if y < 0 then Fin 0 else if is_int y \<and> odd \<lfloor>y\<rfloor> then MInf else PInf))"
| "powf a NaN = (if a = Fin 1 then Fin 1 else NaN)"
| "powf a PInf =
     (case a of
        NaN \<Rightarrow> NaN
      | Fin b \<Rightarrow> (if \<bar>b\<bar> = 1 then Fin 1 else if \<bar>b\<bar> < 1 then Fin 0 else PInf)
      | _ \<Rightarrow> PInf)"
| "powf a MInf =
     (case a of
        NaN \<Rightarrow> NaN
      | Fin b \<Rightarrow> (if \<bar>b\<bar> = 1 then Fin 1 else if \<bar>b\<bar> < 1 then PInf else Fin 0)
      | _ \<Rightarrow> Fin 0)"

section \<open>Host data model\<close>

type_synonym uchar = "8 word"

datatype error =
  DivisionByZero | OutOfBounds | Uninitialized | NullPointer | BadAlloc | IntOverflow

text \<open>
  The range of \<^verbatim>\<open>int\<close> (32 bits) and the product of two \<^verbatim>\<open>int\<close>s. A signed
  overflow is undefined behaviour in C++; the model reports it as an error.
\<close>

definition INT_MAX :: int where
  "INT_MAX = 2147483647"

definition INT_MIN :: int where
  "INT_MIN = - 2147483648"

definition int_mul :: "int \<Rightarrow> int \<Rightarrow> error + int" where
  "int_mul a b = (if a * b < INT_MIN \<or> INT_MAX < a * b then Inl IntOverflow else Inr (a * b))"

text \<open>
  What the renderer reads from the volume descriptor \<^verbatim>\<open>vd\<close> (class
  \<^verbatim>\<open>vvVolDesc\<close>): the voxel counts \<^verbatim>\<open>vox[0..2]\<close>, the bytes per
  channel, the number of time frames, the raw bytes of each frame (\<^verbatim>\<open>getRaw(f)\<close>;
  \<^verbatim>\<open>getRaw()\<close> is the current frame) and the three components of
  \<^verbatim>\<open>getSize()\<close>.
\<close>

record vvVolDesc =
  vox :: "int list"
  bpc :: int
  frames :: int
  getRaw :: "nat \<Rightarrow> uchar list"
  currentFrame :: nat
  getSize :: "real list"

subsection \<open>The CUDA runtime, as far as the renderer uses it\<close>

text \<open>
  The CUDA runtime is not part of the repository; the calls are modelled after the CUDA
  runtime API reference. The device holds 3-D arrays; a handle is a positive number and 0
  is the null pointer. An allocation succeeds when the device has the bytes.
  \<^verbatim>\<open>cudaFreeArray\<close> releases an array. \<^verbatim>\<open>cudaFree\<close> releases linear memory, its
  argument ``must have been returned by a previous call to \<^verbatim>\<open>cudaMalloc\<close> or
  \<^verbatim>\<open>cudaMallocPitch\<close>; otherwise an error is returned''. This model holds no linear
  memory, so \<^verbatim>\<open>cudaFree\<close> returns an error and releases nothing for every pointer but
  the null pointer.
\<close>

datatype cudaError =
  cudaSuccess | cudaErrorMemoryAllocation | cudaErrorInvalidValue | cudaErrorInvalidDevicePointer

record cudaArray =
  elemSize :: nat
  extent :: "nat \<times> nat \<times> nat"
  contents :: "uchar list option"

record device =
  arrays :: "nat \<rightharpoonup> cudaArray"
  nextHandle :: nat
  freeMem :: nat

definition arrayBytes :: "nat \<Rightarrow> nat \<times> nat \<times> nat \<Rightarrow> nat" where
  "arrayBytes esz ext = (case ext of (w, h, d) \<Rightarrow> esz * w * h * d)"

definition cudaMalloc3DArray ::
  "device \<Rightarrow> nat \<Rightarrow> nat \<times> nat \<times> nat \<Rightarrow> cudaError \<times> device \<times> nat option" where
  "cudaMalloc3DArray dv esz ext =
     (if esz = 0 then (cudaErrorInvalidValue, dv, None)
      else if freeMem dv < arrayBytes esz ext then (cudaErrorMemoryAllocation, dv, None)
      else
        (cudaSuccess,
         dv\<lparr> arrays := (arrays dv)(nextHandle dv \<mapsto>
                 \<lparr> elemSize = esz, extent = ext, contents = None \<rparr>),
             nextHandle := Suc (nextHandle dv),
             freeMem := freeMem dv - arrayBytes esz ext \<rparr>,
         Some (nextHandle dv)))"

definition cudaMemcpy3D ::
  "device \<Rightarrow> uchar list option \<Rightarrow> nat \<Rightarrow> nat \<times> nat \<times> nat \<Rightarrow> cudaError \<times> device" where
  "cudaMemcpy3D dv src dst ext =
     (case (src, arrays dv dst) of
        (Some bytes, Some a) \<Rightarrow>
          (if length bytes < arrayBytes (elemSize a) ext then (cudaErrorInvalidValue, dv)
           else (cudaSuccess,
                 dv\<lparr> arrays := (arrays dv)(dst \<mapsto>
                         a\<lparr> contents := Some (take (arrayBytes (elemSize a) ext) bytes) \<rparr>) \<rparr>))
      | _ \<Rightarrow> (cudaErrorInvalidValue, dv))"

definition cudaFree :: "device \<Rightarrow> nat \<Rightarrow> cudaError \<times> device" where
  "cudaFree dv p = (if p = 0 then (cudaSuccess, dv) else (cudaErrorInvalidDevicePointer, dv))"

definition cudaFreeArray :: "device \<Rightarrow> nat \<Rightarrow> cudaError \<times> device" where
  "cudaFreeArray dv p =
     (if p = 0 then (cudaSuccess, dv)
      else case arrays dv p of
        None \<Rightarrow> (cudaErrorInvalidValue, dv)
      | Some a \<Rightarrow>
          (cudaSuccess,
           dv\<lparr> arrays := (arrays dv)(p := None),
               freeMem := freeMem dv + arrayBytes (elemSize a) (extent a) \<rparr>))"

text \<open>
  Modelled from the spec: \<^verbatim>\<open>vvCuda::checkError(&ok, err, msg)\<close> is declared in
  vvcuda.h, which is not among the sources. The spec has a refused allocation reported and
  the report sticky, so the flag becomes false when the call failed and is left as it was
  otherwise.
\<close>

definition checkError :: "bool \<Rightarrow> cudaError \<Rightarrow> bool" where
  "checkError ok err = (if err = cudaSuccess then ok else False)"

subsection \<open>The renderer\<close>

datatype DepthPrecision = VV_UCHAR | VV_USHORT | VV_UINT

record texref =
  normalized :: bool
  filterModeLinear :: bool
  boundArray :: nat

text \<open>
  The members of \<^verbatim>\<open>vvRayRend\<close> (and of its base \<^verbatim>\<open>vvRenderState\<close>) that the modelled
  functions read or write; the leading underscore of a member's name is dropped. The four
  \<^verbatim>\<open>VV_\<close> fields are the values of \<^verbatim>\<open>getParameter\<close> after the conversion the
  dispatcher applies (\<^verbatim>\<open>int\<close> for the MIP mode, \<^verbatim>\<open>bool\<close> for the others). An
  element \<^verbatim>\<open>None\<close> of a cell array is an element of \<^verbatim>\<open>new int[n]\<close> that was never
  assigned; an array that is \<^verbatim>\<open>None\<close> is the null pointer.
\<close>

record vvRayRend =
  vd :: vvVolDesc
  volumeCopyToGpuOk :: bool
  earlyRayTermination :: bool
  illumination :: bool
  interpolation :: bool
  opacityCorrection :: bool
  spaceSkipping :: bool
  VV_CLIP_MODE :: bool
  VV_IS_ROI_USED :: bool
  VV_SPHERICAL_ROI :: bool
  VV_MIP_MODE :: int
  quality :: real
  h_numCells :: "int list"
  h_cellMinValues :: "int option list option"
  h_cellMaxValues :: "int option list option"
  h_spaceSkippingArray :: "bool list option"
  rgbaTF :: "float list option"
  d_volumeArrays :: "nat list"
  channelDesc :: nat
  volTexture8 :: texref
  volTexture16 :: texref
  depthPrecision :: DepthPrecision
  dev :: device

section \<open>Kernel dispatcher (vvrayrend.cu, lines 569-825)\<close>

text \<open>
  The template parameter list of the \<^verbatim>\<open>render\<close> kernel (vvrayrend.cu, lines 265-277).
  A value of this record names one specialization of the kernel.
\<close>

record kernel =
  t_earlyRayTermination :: bool
  t_spaceSkipping :: bool
  t_frontToBack :: bool
  t_bpc :: int
  t_mipMode :: int
  t_lighting :: bool
  t_opacityCorrection :: bool
  t_jittering :: bool
  t_clipPlane :: bool
  t_clipSphere :: bool
  t_useSphereAsProbe :: bool

definition getKernelWithMip ::
  "int \<Rightarrow> bool \<Rightarrow> bool \<Rightarrow> bool \<Rightarrow> bool \<Rightarrow> bool \<Rightarrow> bool \<Rightarrow> int \<Rightarrow> vvRayRend \<Rightarrow> kernel" where
  "getKernelWithMip bp illum opcorr ert clipPlane clipSphere sphereAsProbe mipMode r =
     \<lparr> t_earlyRayTermination = ert,
       t_spaceSkipping = True,
       t_frontToBack = True,
       t_bpc = bp,
       t_mipMode = mipMode,
       t_lighting = illum,
       t_opacityCorrection = opcorr,
       t_jittering = False,
       t_clipPlane = clipPlane,
       t_clipSphere = clipSphere,
       t_useSphereAsProbe = sphereAsProbe \<rparr>"

definition getKernelWithSphereAsProbe ::
  "int \<Rightarrow> bool \<Rightarrow> bool \<Rightarrow> bool \<Rightarrow> bool \<Rightarrow> bool \<Rightarrow> bool \<Rightarrow> vvRayRend \<Rightarrow> kernel" where
  "getKernelWithSphereAsProbe bp illum opcorr ert clipPlane clipSphere sphereAsProbe r =
     (if VV_MIP_MODE r = 0 then
        getKernelWithMip bp illum opcorr ert clipPlane clipSphere sphereAsProbe 0 r
      else if VV_MIP_MODE r = 1 then
        getKernelWithMip bp illum opcorr False clipPlane clipSphere sphereAsProbe 1 r
      else if VV_MIP_MODE r = 2 then
        getKernelWithMip bp illum opcorr False clipPlane clipSphere sphereAsProbe 2 r
      else
        getKernelWithMip bp illum opcorr ert clipPlane clipSphere sphereAsProbe 0 r)"

definition getKernelWithClipPlane ::
  "int \<Rightarrow> bool \<Rightarrow> bool \<Rightarrow> bool \<Rightarrow> bool \<Rightarrow> vvRayRend \<Rightarrow> kernel" where
  "getKernelWithClipPlane bp illum opcorr ert clipPlane r =
     (if VV_IS_ROI_USED r \<and> VV_SPHERICAL_ROI r then
        getKernelWithSphereAsProbe bp illum opcorr ert clipPlane True True r
      else
        getKernelWithSphereAsProbe bp illum opcorr ert clipPlane False False r)"

definition getKernelWithEarlyRayTermination ::
  "int \<Rightarrow> bool \<Rightarrow> bool \<Rightarrow> bool \<Rightarrow> vvRayRend \<Rightarrow> kernel" where
  "getKernelWithEarlyRayTermination bp illum opcorr ert r =
     (if VV_CLIP_MODE r then getKernelWithClipPlane bp illum opcorr ert True r
      else getKernelWithClipPlane bp illum opcorr ert False r)"

definition getKernelWithOpacityCorrection :: "int \<Rightarrow> bool \<Rightarrow> bool \<Rightarrow> vvRayRend \<Rightarrow> kernel" where
  "getKernelWithOpacityCorrection bp illum opcorr r =
     (if earlyRayTermination r then getKernelWithEarlyRayTermination bp illum opcorr True r
      else getKernelWithEarlyRayTermination bp illum opcorr False r)"

definition getKernelWithIllumination :: "int \<Rightarrow> bool \<Rightarrow> vvRayRend \<Rightarrow> kernel" where
  "getKernelWithIllumination bp illum r =
     (if opacityCorrection r then getKernelWithOpacityCorrection bp illum True r
      else getKernelWithOpacityCorrection bp illum False r)"

definition getKernelWithBpc :: "int \<Rightarrow> vvRayRend \<Rightarrow> kernel" where
  "getKernelWithBpc bp r =
     (if illumination r then getKernelWithIllumination bp True r
      else getKernelWithIllumination bp False r)"

definition getKernel :: "vvRayRend \<Rightarrow> kernel" where
  "getKernel r =
     (if bpc (vd r) = 1 then getKernelWithBpc 1 r
      else if bpc (vd r) = 2 then getKernelWithBpc 2 r
      else getKernelWithBpc 1 r)"

section \<open>Volume store (vvrayrend.cu, lines 1265-1388)\<close>

text \<open>
  The 16-bit transform of \<^verbatim>\<open>initVolumeTexture\<close> (lines 1312-1322). For the pair
  \<^verbatim>\<open>raw[i]\<close>, \<^verbatim>\<open>raw[i + 1]\<close> the source computes the \<^verbatim>\<open>int\<close>
  \<^verbatim>\<open>(raw[i] << 8) | raw[i + 1]\<close>, shifts it right by 4 and stores it in the
  \<^verbatim>\<open>uchar\<close> \<^verbatim>\<open>data[i + 1]\<close>; \<^verbatim>\<open>data[i]\<close> is \<^verbatim>\<open>raw[i]\<close>.
\<close>

definition rebit_val :: "uchar \<Rightarrow> uchar \<Rightarrow> uchar" where
  "rebit_val a b = ucast (drop_bit 4 (push_bit 8 (ucast a :: 32 word) OR ucast b))"

function rebit_loop :: "nat \<Rightarrow> nat \<Rightarrow> uchar list \<Rightarrow> uchar list \<Rightarrow> error + uchar list" where
  "rebit_loop i sz raw data =
     (if i < sz then
        (if length raw \<le> i + 1 \<or> length data \<le> i + 1 then Inl OutOfBounds
         else rebit_loop (i + 2) sz raw
                (data[i := raw ! i, i + 1 := rebit_val (raw ! i) (raw ! (i + 1))]))
      else Inr data)"
  by pat_completeness auto
termination
  by (relation "measure (\<lambda>(i, sz, raw, data). sz - i)") auto

declare rebit_loop.simps [simp del]

text \<open>
  \<^verbatim>\<open>data\<close> is \<^verbatim>\<open>new uchar[size]\<close>; the loop starts at index 0 and assigns every
  element when \<^verbatim>\<open>size\<close> is even, as it is for \<^verbatim>\<open>bpc == 2\<close>.
\<close>

definition rebit :: "nat \<Rightarrow> uchar list \<Rightarrow> error + uchar list" where
  "rebit sz raw = rebit_loop 0 sz raw (replicate sz 0)"

text \<open>
  The transform of one byte pair as the spec words it, for comparison with the code: the
  pair \<open>(a, b)\<close> is the big-endian 16-bit value \<open>256 * a + b\<close>, which is shifted
  right by 4; the low byte of the source, \<open>b\<close>, is copied through, and the high byte is
  replaced by the shifted result (modulo \<open>2^8\<close>). The result is the output pair in the
  same big-endian order.
\<close>

definition rebit_pair_spec :: "uchar \<Rightarrow> uchar \<Rightarrow> uchar \<times> uchar" where
  "rebit_pair_spec a b = (of_nat (((256 * unat a + unat b) div 2 ^ 4) mod 2 ^ 8), b)"

definition volumeSize :: "vvVolDesc \<Rightarrow> nat \<times> nat \<times> nat" where
  "volumeSize v = (nat (vox v ! 0), nat (vox v ! 1), nat (vox v ! 2))"

text \<open>
  \<^verbatim>\<open>const int size = vd->vox[0] * vd->vox[1] * vd->vox[2] * vd->bpc\<close> (line 1312):
  three \<^verbatim>\<open>int\<close> products, evaluated from the left. The members \<^verbatim>\<open>vox\<close> and
  \<^verbatim>\<open>bpc\<close> of \<^verbatim>\<open>vvVolDesc\<close> are read as \<^verbatim>\<open>int\<close>s, the type the source
  gives to \<^verbatim>\<open>size\<close>.
\<close>

definition rebitSize :: "vvVolDesc \<Rightarrow> error + int" where
  "rebitSize v =
     (case int_mul (vox v ! 0) (vox v ! 1) of
        Inl e \<Rightarrow> Inl e
      | Inr p \<Rightarrow>
          (case int_mul p (vox v ! 2) of
             Inl e \<Rightarrow> Inl e
           | Inr q \<Rightarrow> int_mul q (bpc v)))"

text \<open>
  The host bytes behind \<^verbatim>\<open>copyParams.srcPtr\<close> for frame \<open>f\<close> (lines 1304-1324):
  the frame's own raw bytes for \<^verbatim>\<open>bpc == 1\<close>, the transform of
  \<^verbatim>\<open>vd->getRaw(0)\<close> for \<^verbatim>\<open>bpc == 2\<close>, and the zero-initialised (null) source
  pointer otherwise. For \<^verbatim>\<open>bpc == 2\<close> the byte count is the \<^verbatim>\<open>int\<close>
  \<^verbatim>\<open>size\<close>; \<^verbatim>\<open>new uchar[size]\<close> throws for a negative \<^verbatim>\<open>size\<close>.
\<close>

definition frameSource :: "vvVolDesc \<Rightarrow> nat \<Rightarrow> error + uchar list option" where
  "frameSource v f =
     (if bpc v = 1 then Inr (Some (getRaw v f))
      else if bpc v = 2 then
        (case rebitSize v of
           Inl e \<Rightarrow> Inl e
         | Inr sz \<Rightarrow>
             (if sz < 0 then Inl BadAlloc
              else
                (case rebit (nat sz) (getRaw v 0) of
                   Inl e \<Rightarrow> Inl e
                 | Inr data \<Rightarrow> Inr (Some data))))
      else Inr None)"

text \<open>
  The loop over the frames (lines 1283-1330). The result carries \<^verbatim>\<open>outOfMemFrame\<close>:
  the index of the frame whose allocation failed, or \<open>-1\<close>.
\<close>

function uploadFrames :: "nat \<Rightarrow> vvRayRend \<Rightarrow> error + (vvRayRend \<times> int)" where
  "uploadFrames f st =
     (if int f < frames (vd st) then
        (case cudaMalloc3DArray (dev st) (channelDesc st) (volumeSize (vd st)) of
           (err, dv, h) \<Rightarrow>
             let st1 = st\<lparr> dev := dv,
                           d_volumeArrays :=
                             (case h of None \<Rightarrow> d_volumeArrays st
                              | Some p \<Rightarrow> (d_volumeArrays st)[f := p]),
                           volumeCopyToGpuOk := checkError (volumeCopyToGpuOk st) err \<rparr>
             in if \<not> volumeCopyToGpuOk st1 then Inr (st1, int f)
                else
                  (case frameSource (vd st1) f of
                     Inl e \<Rightarrow> Inl e
                   | Inr src \<Rightarrow>
                       uploadFrames (f + 1)
                         (st1\<lparr> dev := snd (cudaMemcpy3D (dev st1) src (d_volumeArrays st1 ! f)
                                               (volumeSize (vd st1))) \<rparr>)))
      else Inr (st, - 1))"
  by pat_completeness auto
termination
  by (relation "measure (\<lambda>(f, st). nat (frames (vd st) - int f))") auto

declare uploadFrames.simps [simp del]

text \<open>\<^verbatim>\<open>std::vector::resize\<close>: new elements are null pointers.\<close>

definition resize :: "nat list \<Rightarrow> nat \<Rightarrow> nat list" where
  "resize v n = take n v @ replicate (n - length v) 0"

definition freeAfterFailure :: "nat \<Rightarrow> vvRayRend \<Rightarrow> vvRayRend" where
  "freeAfterFailure f s =
     s\<lparr> dev := snd (cudaFree (dev s) (d_volumeArrays s ! f)),
        d_volumeArrays := (d_volumeArrays s)[f := 0] \<rparr>"

definition freeArrayAfterFailure :: "nat \<Rightarrow> vvRayRend \<Rightarrow> vvRayRend" where
  "freeArrayAfterFailure f s =
     s\<lparr> dev := snd (cudaFreeArray (dev s) (d_volumeArrays s ! f)),
        d_volumeArrays := (d_volumeArrays s)[f := 0] \<rparr>"

definition bindVolumeTexture :: "vvRayRend \<Rightarrow> texref" where
  "bindVolumeTexture s =
     \<lparr> normalized = True, filterModeLinear = interpolation s,
       boundArray = d_volumeArrays s ! 0 \<rparr>"

definition initVolumeTexture :: "vvRayRend \<Rightarrow> error + vvRayRend" where
  "initVolumeTexture st =
     (let st0 = st\<lparr> channelDesc :=
                      (if bpc (vd st) = 1 then 1 else if bpc (vd st) = 2 then 2
                       else channelDesc st),
                    d_volumeArrays := resize (d_volumeArrays st) (nat (frames (vd st))) \<rparr>
      in case uploadFrames 0 st0 of
        Inl e \<Rightarrow> Inl e
      | Inr (st1, outOfMemFrame) \<Rightarrow>
          let st2 = (if 0 \<le> outOfMemFrame
                     then fold freeAfterFailure [0..<nat (outOfMemFrame + 1)] st1 else st1);
              st3 = (if bpc (vd st2) = 1
                     then fold freeArrayAfterFailure [0..<nat outOfMemFrame] st2 else st2)
          in if volumeCopyToGpuOk st3 \<and> (bpc (vd st3) = 1 \<or> bpc (vd st3) = 2) then
               (if d_volumeArrays st3 = [] then Inl OutOfBounds
                else if bpc (vd st3) = 1
                then Inr (st3\<lparr> volTexture8 := bindVolumeTexture st3 \<rparr>)
                else Inr (st3\<lparr> volTexture16 := bindVolumeTexture st3 \<rparr>))
             else Inr st3)"

section \<open>Compositor entry (vvrayrend.cu, lines 934-1136)\<close>

definition iDivUp :: "int \<Rightarrow> int \<Rightarrow> int" where
  "iDivUp a b = (if c_mod a b \<noteq> 0 then c_div a b + 1 else c_div a b)"

text \<open>
  One kernel launch: the specialization, the grid and block dimensions, the viewport size
  handed to the kernel, the step distance and the device array bound to the volume
  texture. The other launch arguments come from the OpenGL state and are not modelled.
\<close>

record launch =
  l_kernel :: kernel
  l_gridSize :: "int \<times> int"
  l_blockSize :: "int \<times> int"
  l_width :: int
  l_height :: int
  l_dist :: float
  l_volume :: nat
  l_dp :: DepthPrecision

text \<open>
  \<^verbatim>\<open>compositeVolume(w, h)\<close>; \<open>vp\<close> is the width and height of
  \<^verbatim>\<open>vvGLTools::getViewport()\<close>. The result is the text written to
  \<^verbatim>\<open>std::cerr\<close> and the kernel launch, if there is one.
\<close>

definition compositeVolume ::
  "vvRayRend \<Rightarrow> int \<times> int \<Rightarrow> int \<Rightarrow> int \<Rightarrow> string list \<times> launch option" where
  "compositeVolume st vp w h =
     (if \<not> volumeCopyToGpuOk st then
        ([''vvRayRend::compositeVolume() aborted because of previous CUDA-Error''], None)
      else
        let vp' = (if 0 < w \<and> 0 < h then (w, h) else vp);
            blockSize = (16, 16);
            gridSize = (iDivUp (fst vp') (fst blockSize), iDivUp (snd vp') (snd blockSize));
            diagonalVoxels = sqrt (of_int (vox (vd st) ! 0 * vox (vd st) ! 0 +
                                            vox (vd st) ! 1 * vox (vd st) ! 1 +
                                            vox (vd st) ! 2 * vox (vd st) ! 2));
            numSlices = max 1 (trunc (quality st * diagonalVoxels))
        in ([], Some \<lparr> l_kernel = getKernel st,
                        l_gridSize = gridSize,
                        l_blockSize = blockSize,
                        l_width = fst vp',
                        l_height = snd vp',
                        l_dist = fdiv (Fin diagonalVoxels) (Fin (of_int numSlices)),
                        l_volume = d_volumeArrays st ! currentFrame (vd st),
                        l_dp = depthPrecision st \<rparr>))"

section \<open>Empty-space skipping (vvrayrend.cu, lines 1411-1523)\<close>

text \<open>
  \<^verbatim>\<open>for (int i = from; i < to; ++i) body\<close> on a state, where the body may fail. The
  \<^verbatim>\<open>int\<close> arithmetic of this section is modelled without overflow.
\<close>

function for_loop :: "int \<Rightarrow> int \<Rightarrow> (int \<Rightarrow> 's \<Rightarrow> error + 's) \<Rightarrow> 's \<Rightarrow> error + 's" where
  "for_loop i n body s =
     (if i < n then
        (case body i s of Inl e \<Rightarrow> Inl e | Inr s' \<Rightarrow> for_loop (i + 1) n body s')
      else Inr s)"
  by pat_completeness auto
termination
  by (relation "measure (\<lambda>(i, n, body, s). nat (n - i))") auto

declare for_loop.simps [simp del]

text \<open>
  The body of the three voxel loops (lines 1464-1474): read the voxel as an
  \<^verbatim>\<open>uchar\<close> and update the running maximum and minimum.
\<close>

definition scanVoxel ::
  "uchar list \<Rightarrow> real list \<Rightarrow> int \<Rightarrow> int \<Rightarrow> int \<Rightarrow> int \<times> int \<Rightarrow> error + int \<times> int" where
  "scanVoxel raw sz vz vy vx mm =
     (let i = vz * trunc (sz ! 0 * sz ! 1) + vy * trunc (sz ! 0) + vx
      in if i < 0 \<or> int (length raw) \<le> i then Inl OutOfBounds
         else
           let v = uint (raw ! nat i);
               minValue = fst mm;
               maxValue = snd mm;
               maxValue' = (if maxValue < v then v else maxValue);
               minValue' = (if v < minValue then v else minValue)
           in Inr (minValue', maxValue'))"

definition cellMinMax ::
  "uchar list \<Rightarrow> real list \<Rightarrow> int list \<Rightarrow> int list \<Rightarrow> error + int \<times> int" where
  "cellMinMax raw sz from to =
     for_loop (from ! 2) (to ! 2)
       (\<lambda>vz. for_loop (from ! 1) (to ! 1)
          (\<lambda>vy. for_loop (from ! 0) (to ! 0)
             (\<lambda>vx. scanVoxel raw sz vz vy vx)))
       (INT_MAX, - INT_MAX)"

text \<open>
  The body of the innermost cell loop (lines 1449-1480) for the cell \<open>(x, y, z)\<close>; the
  state is the pair of arrays \<^verbatim>\<open>h_cellMinValues\<close>, \<^verbatim>\<open>h_cellMaxValues\<close>.
\<close>

definition cellBody ::
  "uchar list \<Rightarrow> real list \<Rightarrow> int list \<Rightarrow> int list \<Rightarrow> int list \<Rightarrow>
   int \<Rightarrow> int \<Rightarrow> int \<Rightarrow> int option list \<times> int option list \<Rightarrow>
   error + int option list \<times> int option list" where
  "cellBody raw sz N cellSizeAll lastCellSize z y x cells =
     (let cellSize = [if x = N ! 0 - 1 then lastCellSize ! 0 else cellSizeAll ! 0,
                      if y = N ! 1 - 1 then lastCellSize ! 1 else cellSizeAll ! 1,
                      if z = N ! 2 - 1 then lastCellSize ! 2 else cellSizeAll ! 2];
          from = [cellSizeAll ! 0 * x, cellSizeAll ! 1 * y, cellSizeAll ! 2 * z];
          to = [from ! 0 + cellSize ! 0, from ! 1 + cellSize ! 1, from ! 2 + cellSize ! 2]
      in case cellMinMax raw sz from to of
           Inl e \<Rightarrow> Inl e
         | Inr (minValue, maxValue) \<Rightarrow>
             let idx = x * N ! 1 * N ! 2 + y * N ! 2 + z
             in if idx < 0 \<or> int (length (fst cells)) \<le> idx then Inl OutOfBounds
                else Inr ((fst cells)[nat idx := Some minValue],
                          (snd cells)[nat idx := Some maxValue]))"

definition calcSpaceSkippingGrid :: "vvRayRend \<Rightarrow> error + vvRayRend" where
  "calcSpaceSkippingGrid st =
     (let N = h_numCells st;
          sz = getSize (vd st);
          raw = getRaw (vd st) (currentFrame (vd st));
          numCells = N ! 0 * N ! 1 * N ! 2
      in if numCells < 0 then Inl BadAlloc
         else if N ! 0 = 0 \<or> N ! 1 = 0 \<or> N ! 2 = 0 then Inl DivisionByZero
         else
           let cellSizeAll = [c_div (trunc (sz ! 0)) (N ! 0),
                              c_div (trunc (sz ! 1)) (N ! 1),
                              c_div (trunc (sz ! 2)) (N ! 2)];
               lastCellSize = [cellSizeAll ! 0 + c_mod (trunc (sz ! 0)) (N ! 0),
                               cellSizeAll ! 1 + c_mod (trunc (sz ! 1)) (N ! 1),
                               cellSizeAll ! 2 + c_mod (trunc (sz ! 2)) (N ! 2)]
           in case for_loop 0 (N ! 2)
                     (\<lambda>z. for_loop 0 (N ! 1)
                        (\<lambda>y. for_loop 0 (N ! 2)
                           (\<lambda>x. cellBody raw sz N cellSizeAll lastCellSize z y x)))
                     (replicate (nat numCells) None, replicate (nat numCells) None) of
                Inl e \<Rightarrow> Inl e
              | Inr (mins, maxs) \<Rightarrow>
                  Inr (st\<lparr> h_cellMinValues := Some mins, h_cellMaxValues := Some maxs \<rparr>))"





section \<open>Ray kernel (vvrayrend.cu, lines 41-562)\<close>

subsection \<open>Vectors, conversions and device state\<close>

datatype float3 = make_float3 (x3: float) (y3: float) (z3: float)

datatype float4 = make_float4 (x4: float) (y4: float) (z4: float) (w4: float)

datatype uchar4 = make_uchar4 (ux: uchar) (uy: uchar) (uz: uchar) (uw: uchar)

type_synonym matrix4x4 = "nat \<Rightarrow> nat \<Rightarrow> float"

record Ray =
  ray_o :: float3
  ray_d :: float3

text \<open>
  The vector operators the kernel uses (CUDA helper headers), written out. The
  one-argument forms \<^verbatim>\<open>make_float4(0.0f)\<close> and \<^verbatim>\<open>make_uchar4(0)\<close> of the source
  come from vvcudautils.h, which is not among the sources. Modelled from the spec: they
  give the vector whose components are all the argument (the spec has the kernel start
  from \<open>(0, 0, 0, 0)\<close> and write RGBA = 0), so they appear below as
  \<open>make_float4 (Fin 0) (Fin 0) (Fin 0) (Fin 0)\<close> and \<open>make_uchar4 0 0 0 0\<close>.
\<close>

definition f3add :: "float3 \<Rightarrow> float3 \<Rightarrow> float3" where
  "f3add a b = make_float3 (fadd (x3 a) (x3 b)) (fadd (y3 a) (y3 b)) (fadd (z3 a) (z3 b))"

definition f3sub :: "float3 \<Rightarrow> float3 \<Rightarrow> float3" where
  "f3sub a b = make_float3 (fsub (x3 a) (x3 b)) (fsub (y3 a) (y3 b)) (fsub (z3 a) (z3 b))"

definition f3mul :: "float3 \<Rightarrow> float3 \<Rightarrow> float3" where
  "f3mul a b = make_float3 (fmul (x3 a) (x3 b)) (fmul (y3 a) (y3 b)) (fmul (z3 a) (z3 b))"

definition f3div :: "float3 \<Rightarrow> float3 \<Rightarrow> float3" where
  "f3div a b = make_float3 (fdiv (x3 a) (x3 b)) (fdiv (y3 a) (y3 b)) (fdiv (z3 a) (z3 b))"

definition f3scale :: "float3 \<Rightarrow> float \<Rightarrow> float3" where
  "f3scale a c = make_float3 (fmul (x3 a) c) (fmul (y3 a) c) (fmul (z3 a) c)"

definition dot :: "float3 \<Rightarrow> float3 \<Rightarrow> float" where
  "dot a b = fadd (fadd (fmul (x3 a) (x3 b)) (fmul (y3 a) (y3 b))) (fmul (z3 a) (z3 b))"

definition normalize3 :: "float3 \<Rightarrow> float3" where
  "normalize3 v = f3scale v (rsqrtf (dot v v))"

definition f4add :: "float4 \<Rightarrow> float4 \<Rightarrow> float4" where
  "f4add a b = make_float4 (fadd (x4 a) (x4 b)) (fadd (y4 a) (y4 b)) (fadd (z4 a) (z4 b))
                           (fadd (w4 a) (w4 b))"

definition f4scale :: "float4 \<Rightarrow> float \<Rightarrow> float4" where
  "f4scale a c = make_float4 (fmul (x4 a) c) (fmul (y4 a) c) (fmul (z4 a) c) (fmul (w4 a) c)"

text \<open>
  Conversion of a float to a signed 32-bit and to an unsigned integer of \<open>bits\<close> bits:
  truncation towards zero; outside the range the device conversion saturates and NaN
  becomes 0.
\<close>

fun f2int :: "float \<Rightarrow> int" where
  "f2int (Fin a) = max INT_MIN (min INT_MAX (trunc a))"
| "f2int PInf = INT_MAX"
| "f2int MInf = INT_MIN"
| "f2int NaN = 0"

fun f2uint :: "nat \<Rightarrow> float \<Rightarrow> nat" where
  "f2uint bits (Fin a) = min (2 ^ bits - 1) (nat (trunc a))"
| "f2uint bits PInf = 2 ^ bits - 1"
| "f2uint bits MInf = 0"
| "f2uint bits NaN = 0"

text \<open>
  The constants and textures the kernel reads: the two matrices in constant memory and
  the four texture references, each as the function from coordinates to the fetched value
  (the filtering and addressing are the hardware's).
\<close>

record device_env =
  c_invViewMatrix :: matrix4x4
  c_MvPrMatrix :: matrix4x4
  tex3D_volTexture8 :: "float \<Rightarrow> float \<Rightarrow> float \<Rightarrow> float"
  tex3D_volTexture16 :: "float \<Rightarrow> float \<Rightarrow> float \<Rightarrow> float"
  tex1D_tfTexture :: "float \<Rightarrow> float4"
  tex1D_randTexture :: "float \<Rightarrow> float4"

text \<open>
  The arguments of \<^verbatim>\<open>render\<close> but the two buffers. \<open>stepDist\<close>, \<open>lightL\<close> and
  \<open>halfH\<close> are the parameters \<^verbatim>\<open>dist\<close>, \<^verbatim>\<open>L\<close> and \<^verbatim>\<open>H\<close>.
\<close>

record render_args =
  width :: "32 word"
  height :: "32 word"
  backgroundColor :: float4
  texwidth :: "32 word"
  stepDist :: float
  volPos :: float3
  volSizeHalf :: float3
  probePos :: float3
  probeSizeHalf :: float3
  lightL :: float3
  halfH :: float3
  sphereCenter :: float3
  sphereRadius :: float
  planeNormal :: float3
  planeDist :: float
  dp :: DepthPrecision

text \<open>
  The two output buffers, by element index. \<^verbatim>\<open>d_depth\<close> is read through the pointer
  type that \<^verbatim>\<open>dp\<close> selects; its elements are kept as numbers.
\<close>

record framebuffer =
  d_output :: "nat \<Rightarrow> uchar4"
  d_depth :: "nat \<Rightarrow> nat"

subsection \<open>Device functions\<close>

definition volume :: "kernel \<Rightarrow> device_env \<Rightarrow> float3 \<Rightarrow> float" where
  "volume k env pos =
     (if t_bpc k = 1 then tex3D_volTexture8 env (x3 pos) (y3 pos) (z3 pos)
      else if t_bpc k = 2 then tex3D_volTexture16 env (x3 pos) (y3 pos) (z3 pos)
      else Fin (- 1))"

definition skipSpace :: "float3 \<Rightarrow> bool" where
  "skipSpace pos = False"

definition calcTexCoord :: "float3 \<Rightarrow> float3 \<Rightarrow> float3 \<Rightarrow> float3" where
  "calcTexCoord pos vPos vSizeHalf =
     make_float3
       (fdiv (fadd (fsub (x3 pos) (x3 vPos)) (x3 vSizeHalf)) (fmul (x3 vSizeHalf) (Fin 2)))
       (fdiv (fadd (fsub (y3 pos) (y3 vPos)) (y3 vSizeHalf)) (fmul (y3 vSizeHalf) (Fin 2)))
       (fdiv (fadd (fsub (z3 pos) (z3 vPos)) (z3 vSizeHalf)) (fmul (z3 vSizeHalf) (Fin 2)))"

text \<open>
  \<^verbatim>\<open>solveQuadraticEquation\<close>: the result is the returned flag with \<^verbatim>\<open>*tnear\<close> and
  \<^verbatim>\<open>*tfar\<close>. The branch for a negative discriminant stores \<open>-1\<close> in both and does
  not return, so both are overwritten below.
\<close>

definition solveQuadraticEquation :: "float \<Rightarrow> float \<Rightarrow> float \<Rightarrow> bool \<times> float \<times> float" where
  "solveQuadraticEquation A B C =
     (let discrim = fsub (fmul B B) (fmul (fmul (Fin 4) A) C);
          rootDiscrim = fsqrt_rn discrim;
          q = (if flt B (Fin 0) then fmul (Fin (- (1 / 2))) (fsub B rootDiscrim)
               else fmul (Fin (- (1 / 2))) (fadd B rootDiscrim));
          tnear = fdiv q A;
          tfar = fdiv C q
      in if fgt tnear tfar then (True, tfar, tnear) else (False, tnear, tfar))"

definition intersectBox :: "Ray \<Rightarrow> float3 \<Rightarrow> float3 \<Rightarrow> bool \<times> float \<times> float" where
  "intersectBox ray boxmin boxmax =
     (let invR = f3div (make_float3 (Fin 1) (Fin 1) (Fin 1)) (ray_d ray);
          t1 = fmul (fsub (x3 boxmin) (x3 (ray_o ray))) (x3 invR);
          t2 = fmul (fsub (x3 boxmax) (x3 (ray_o ray))) (x3 invR);
          tmin = fminf t1 t2;
          tmax = fmaxf t1 t2;
          t1 = fmul (fsub (y3 boxmin) (y3 (ray_o ray))) (y3 invR);
          t2 = fmul (fsub (y3 boxmax) (y3 (ray_o ray))) (y3 invR);
          tmin = fmaxf (fminf t1 t2) tmin;
          tmax = fminf (fmaxf t1 t2) tmax;
          t1 = fmul (fsub (z3 boxmin) (z3 (ray_o ray))) (z3 invR);
          t2 = fmul (fsub (z3 boxmax) (z3 (ray_o ray))) (z3 invR);
          tmin = fmaxf (fminf t1 t2) tmin;
          tmax = fminf (fmaxf t1 t2) tmax
      in (fge tmax tmin \<and> fge tmax (Fin 0), tmin, tmax))"

definition intersectSphere :: "Ray \<Rightarrow> float3 \<Rightarrow> float \<Rightarrow> bool \<times> float \<times> float" where
  "intersectSphere ray center radiusSqr =
     (let rd = ray_d ray;
          ro = f3sub (ray_o ray) center;
          A = fadd (fadd (fmul (x3 rd) (x3 rd)) (fmul (y3 rd) (y3 rd))) (fmul (z3 rd) (z3 rd));
          B = fmul (Fin 2)
                (fadd (fadd (fmul (x3 rd) (x3 ro)) (fmul (y3 rd) (y3 ro))) (fmul (z3 rd) (z3 ro)));
          C = fsub (fadd (fadd (fmul (x3 ro) (x3 ro)) (fmul (y3 ro) (y3 ro)))
                         (fmul (z3 ro) (z3 ro))) radiusSqr
      in solveQuadraticEquation A B C)"

text \<open>\<^verbatim>\<open>intersectPlane\<close>: the result is \<^verbatim>\<open>*nddot\<close> and \<^verbatim>\<open>*tnear\<close>.\<close>

definition intersectPlane :: "Ray \<Rightarrow> float3 \<Rightarrow> float \<Rightarrow> float \<times> float" where
  "intersectPlane ray normal pdist =
     (let nddot = dot normal (ray_d ray);
          vOrigin = fsub pdist (dot normal (ray_o ray))
      in (nddot, fdiv vOrigin nddot))"

definition mulPost :: "matrix4x4 \<Rightarrow> float4 \<Rightarrow> float4" where
  "mulPost M v =
     (let row = (\<lambda>i. fadd (fadd (fadd (fmul (M i 0) (x4 v)) (fmul (M i 1) (y4 v)))
                                 (fmul (M i 2) (z4 v))) (fmul (M i 3) (w4 v)))
      in make_float4 (row 0) (row 1) (row 2) (row 3))"

definition perspectiveDivide :: "float4 \<Rightarrow> float3" where
  "perspectiveDivide v =
     (let wInv = fdiv (Fin 1) (w4 v)
      in make_float3 (fmul (x4 v) wInv) (fmul (y4 v) wInv) (fmul (z4 v) wInv))"

text \<open>
  Modelled from the spec: \<^verbatim>\<open>clamp\<close> is declared in vvcudautils.h, which is not among
  the sources. The spec has the kernel clamp each component to \<open>[0, 1]\<close> before the
  multiplication by 255, so \<^verbatim>\<open>clamp(rgba.x)\<close> replaces the component by its clamped
  value.
\<close>

definition clamp :: "float \<Rightarrow> float" where
  "clamp f = fmaxf (Fin 0) (fminf f (Fin 1))"

definition rgbaFloatToInt :: "float4 \<Rightarrow> uchar4" where
  "rgbaFloatToInt rgba =
     make_uchar4 (of_nat (f2uint 8 (fmul (clamp (x4 rgba)) (Fin 255))))
                 (of_nat (f2uint 8 (fmul (clamp (y4 rgba)) (Fin 255))))
                 (of_nat (f2uint 8 (fmul (clamp (z4 rgba)) (Fin 255))))
                 (of_nat (f2uint 8 (fmul (clamp (w4 rgba)) (Fin 255))))"

definition gradient :: "kernel \<Rightarrow> device_env \<Rightarrow> float3 \<Rightarrow> float3" where
  "gradient k env pos =
     (let DELTA = Fin (1 / 100);
          sample1 = make_float3
            (volume k env (f3sub pos (make_float3 DELTA (Fin 0) (Fin 0))))
            (volume k env (f3sub pos (make_float3 (Fin 0) DELTA (Fin 0))))
            (volume k env (f3sub pos (make_float3 (Fin 0) (Fin 0) DELTA)));
          sample2 = make_float3
            (volume k env (f3add pos (make_float3 DELTA (Fin 0) (Fin 0))))
            (volume k env (f3add pos (make_float3 (Fin 0) DELTA (Fin 0))))
            (volume k env (f3add pos (make_float3 (Fin 0) (Fin 0) DELTA)))
      in f3sub sample2 sample1)"

text \<open>\<^verbatim>\<open>blinnPhong\<close>; the last argument is the optional pointer \<^verbatim>\<open>normal\<close>.\<close>

definition blinnPhong ::
  "kernel \<Rightarrow> device_env \<Rightarrow> float4 \<Rightarrow> float3 \<Rightarrow> float3 \<Rightarrow> float3 \<Rightarrow>
   float3 \<Rightarrow> float3 \<Rightarrow> float3 \<Rightarrow> float \<Rightarrow> float3 option \<Rightarrow> float4" where
  "blinnPhong k env classification pos L H Ka Kd Ks shininess normal =
     (let N = normalize3 (gradient k env pos);
          N = (case normal of
                 None \<Rightarrow> N
               | Some n \<Rightarrow>
                   normalize3 (f3add (f3scale n (w4 classification))
                                     (f3scale N (fsub (Fin 1) (w4 classification)))));
          diffuse = fabsf (dot L N);
          specular = powf (dot H N) shininess;
          c = make_float3 (x4 classification) (y4 classification) (z4 classification);
          tmp = f3add (f3mul Ka c) (f3mul (f3scale Kd diffuse) c);
          tmp = (if fgt specular (Fin 0) then f3add tmp (f3mul (f3scale Ks specular) c)
                 else tmp)
      in make_float4 (x3 tmp) (y3 tmp) (z3 tmp) (w4 classification))"

subsection \<open>The stepping loop (lines 403-532)\<close>

text \<open>
  The variables the loop changes. \<open>samples\<close> is not in the source: it counts the passes
  that reach the transfer-function lookup, and nothing reads it.
\<close>

record ray_state =
  rs_t :: float
  rs_pos :: float3
  rs_dst :: float4
  justClippedPlane :: bool
  justClippedSphere :: bool
  maxDiff :: float
  maxDiffDepth :: float3
  lastAlpha :: float
  samples :: nat

text \<open>What the code before the loop fixes for it.\<close>

record ray_ctx =
  rc_tfar :: float
  rc_tsnear :: float
  rc_tsfar :: float
  rc_tpnear :: float
  rc_nddot :: float
  rc_step :: float3

text \<open>
  \<^verbatim>\<open>t += dist; if (t > tfar) break; pos += step; continue;\<close> The flag of the result
  says whether the loop is left.
\<close>

definition advance :: "render_args \<Rightarrow> ray_ctx \<Rightarrow> ray_state \<Rightarrow> bool \<times> ray_state" where
  "advance a c s =
     (let s1 = s\<lparr> rs_t := fadd (rs_t s) (stepDist a) \<rparr>
      in if fgt (rs_t s1) (rc_tfar c) then (True, s1)
         else (False, s1\<lparr> rs_pos := f3add (rs_pos s1) (rc_step c) \<rparr>))"

text \<open>Lines 447-460: the two intensity projections.\<close>

definition mipUpdate :: "kernel \<Rightarrow> float4 \<Rightarrow> float4 \<Rightarrow> float4" where
  "mipUpdate k src dst =
     (if t_mipMode k = 1 then
        make_float4 (fmaxf (x4 src) (x4 dst)) (fmaxf (y4 src) (y4 dst)) (fmaxf (z4 src) (z4 dst))
                    (Fin 1)
      else if t_mipMode k = 2 then
        make_float4 (fminf (x4 src) (x4 dst)) (fminf (y4 src) (y4 dst)) (fminf (z4 src) (z4 dst))
                    (Fin 1)
      else dst)"

text \<open>Lines 462-484: local illumination of the classified sample.\<close>

definition illuminate ::
  "kernel \<Rightarrow> device_env \<Rightarrow> render_args \<Rightarrow> ray_state \<Rightarrow> float3 \<Rightarrow> float4 \<Rightarrow> float4" where
  "illuminate k env a s texCoord src =
     (if t_lighting k \<and> fgt (w4 src) (Fin (1 / 10)) then
        (let Ka = make_float3 (Fin 0) (Fin 0) (Fin 0);
             Kd = make_float3 (Fin (8 / 10)) (Fin (8 / 10)) (Fin (8 / 10));
             Ks = make_float3 (Fin (8 / 10)) (Fin (8 / 10)) (Fin (8 / 10));
             shininess = Fin 1000
         in if justClippedPlane s then
              blinnPhong k env src texCoord (lightL a) (halfH a) Ka Kd Ks shininess
                (Some (planeNormal a))
            else if justClippedSphere s then
              blinnPhong k env src texCoord (lightL a) (halfH a) Ka Kd Ks shininess
                (Some (normalize3 (f3sub (rs_pos s) (sphereCenter a))))
            else
              blinnPhong k env src texCoord (lightL a) (halfH a) Ka Kd Ks shininess None)
      else src)"

text \<open>Lines 488-508: opacity correction, pre-multiplication and compositing.\<close>

definition opacityCorrect :: "kernel \<Rightarrow> render_args \<Rightarrow> float4 \<Rightarrow> float4" where
  "opacityCorrect k a src =
     (if t_opacityCorrection k then
        make_float4 (x4 src) (y4 src) (z4 src)
          (fsub (Fin 1) (powf (fsub (Fin 1) (w4 src)) (stepDist a)))
      else src)"

definition premultiply :: "kernel \<Rightarrow> float4 \<Rightarrow> float4" where
  "premultiply k src =
     (if t_mipMode k = 0 then
        make_float4 (fmul (x4 src) (w4 src)) (fmul (y4 src) (w4 src)) (fmul (z4 src) (w4 src))
                    (w4 src)
      else src)"

definition composite :: "kernel \<Rightarrow> float4 \<Rightarrow> float4 \<Rightarrow> float4" where
  "composite k src dst =
     (if t_frontToBack k \<and> t_mipMode k = 0 then f4add dst (f4scale src (fsub (Fin 1) (w4 dst)))
      else dst)"

text \<open>Lines 442-531: one pass that is neither clipped nor skipped.\<close>

definition sampleStep ::
  "kernel \<Rightarrow> device_env \<Rightarrow> render_args \<Rightarrow> ray_ctx \<Rightarrow> float3 \<Rightarrow> ray_state \<Rightarrow> bool \<times> ray_state" where
  "sampleStep k env a c texCoord s =
     (let opacityThreshold = Fin (95 / 100);
          sample = volume k env texCoord;
          src = tex1D_tfTexture env sample;
          dst = mipUpdate k src (rs_dst s);
          src = illuminate k env a s texCoord src;
          src = opacityCorrect k a src;
          src = premultiply k src;
          dst = composite k src dst;
          s1 = s\<lparr> rs_dst := dst, justClippedPlane := False, justClippedSphere := False,
                  samples := Suc (samples s) \<rparr>
      in if t_earlyRayTermination k \<and> fgt (w4 dst) opacityThreshold then (True, s1)
         else
           let s2 = s1\<lparr> rs_t := fadd (rs_t s1) (stepDist a) \<rparr>
           in if fgt (rs_t s2) (rc_tfar c) then (True, s2)
              else
                let s3 = s2\<lparr> rs_pos := f3add (rs_pos s2) (rc_step c) \<rparr>;
                    s4 = (if fgt (fsub (w4 dst) (lastAlpha s3)) (maxDiff s3)
                          then s3\<lparr> maxDiff := fsub (w4 dst) (lastAlpha s3),
                                    maxDiffDepth := rs_pos s3 \<rparr>
                          else s3)
                in (False, s4\<lparr> lastAlpha := w4 dst \<rparr>))"

text \<open>The body of the loop: the clipping tests, the space skipping, the sample.\<close>

definition loopBody ::
  "kernel \<Rightarrow> device_env \<Rightarrow> render_args \<Rightarrow> ray_ctx \<Rightarrow> ray_state \<Rightarrow> bool \<times> ray_state" where
  "loopBody k env a c s =
     (let t = rs_t s;
          clippedPlane =
            (t_clipPlane k \<and> ((fle t (rc_tpnear c) \<and> fge (rc_nddot c) (Fin 0)) \<or>
                               (fge t (rc_tpnear c) \<and> flt (rc_nddot c) (Fin 0))));
          clippedSphere =
            (if t_useSphereAsProbe k
             then t_clipSphere k \<and> (flt t (rc_tsnear c) \<or> fgt t (rc_tsfar c))
             else t_clipSphere k \<and> fge t (rc_tsnear c) \<and> fle t (rc_tsfar c))
      in if clippedPlane \<or> clippedSphere then
           advance a c (s\<lparr> justClippedPlane := clippedPlane,
                            justClippedSphere := clippedSphere \<rparr>)
         else
           let texCoord = calcTexCoord (rs_pos s) (volPos a) (volSizeHalf a)
           in if t_spaceSkipping k \<and> skipSpace texCoord then advance a c s
              else sampleStep k env a c texCoord s)"

definition maxSteps :: nat where
  "maxSteps = 2147483647"

function renderLoop ::
  "kernel \<Rightarrow> device_env \<Rightarrow> render_args \<Rightarrow> ray_ctx \<Rightarrow> nat \<Rightarrow> ray_state \<Rightarrow> ray_state" where
  "renderLoop k env a c i s =
     (if i < maxSteps then
        (case loopBody k env a c s of
           (True, s') \<Rightarrow> s'
         | (False, s') \<Rightarrow> renderLoop k env a c (i + 1) s')
      else s)"
  by pat_completeness auto
termination
  by (relation "measure (\<lambda>(k, env, a, c, i, s). maxSteps - i)") auto

declare renderLoop.simps [simp del]

subsection \<open>The kernel \<^verbatim>\<open>render\<close> (lines 278-562)\<close>

text \<open>
  The kernel for the thread of pixel \<open>(x, y)\<close>, in two parts: \<open>traceRay\<close> is all the
  kernel computes, with the place where it returns, and \<open>render\<close> is what it then writes to
  the two buffers. \<^verbatim>\<open>t_isaDepth\<close> is the constant \<^verbatim>\<open>true\<close> of line 288.
\<close>

definition NUM_RAND_VECS :: "32 word" where
  "NUM_RAND_VECS = 8192"

text \<open>Lines 300-316: the ray of the pixel.\<close>

definition generateRay :: "device_env \<Rightarrow> render_args \<Rightarrow> 32 word \<Rightarrow> 32 word \<Rightarrow> Ray" where
  "generateRay env a x y =
     (let u = fsub (fmul (fdiv (Fin (real (unat x))) (Fin (real (unat (width a))))) (Fin 2)) (Fin 1);
          v = fsub (fmul (fdiv (Fin (real (unat y))) (Fin (real (unat (height a))))) (Fin 2)) (Fin 1);
          o4 = mulPost (c_invViewMatrix env) (make_float4 u v (Fin (- 1)) (Fin 1));
          d4 = mulPost (c_invViewMatrix env) (make_float4 u v (Fin 1) (Fin 1));
          ro = perspectiveDivide o4;
          rd = perspectiveDivide d4;
          rd = f3sub rd ro;
          rd = normalize3 rd
      in \<lparr> ray_o = ro, ray_d = rd \<rparr>)"

definition probeHit :: "device_env \<Rightarrow> render_args \<Rightarrow> 32 word \<Rightarrow> 32 word \<Rightarrow> bool \<times> float \<times> float" where
  "probeHit env a x y =
     intersectBox (generateRay env a x y) (f3sub (probePos a) (probeSizeHalf a))
       (f3add (probePos a) (probeSizeHalf a))"

text \<open>Lines 342-351: \<^verbatim>\<open>tnear\<close> becomes a multiple of the step and is not negative.\<close>

definition quantizeNear :: "render_args \<Rightarrow> float \<Rightarrow> float" where
  "quantizeNear a tnear =
     (let tnear = (if fne (fmodf tnear (stepDist a)) (Fin 0)
                   then fmul (stepDist a) (Fin (of_int (f2int (fdiv tnear (stepDist a)))))
                   else tnear)
      in if flt tnear (Fin 0) then Fin 0 else tnear)"

text \<open>
  Lines 353-402: the values the loop starts from. Where the source leaves
  \<^verbatim>\<open>tsnear\<close>, \<^verbatim>\<open>tsfar\<close>, \<^verbatim>\<open>tpnear\<close> and \<^verbatim>\<open>nddot\<close> unassigned
  (no clip sphere, no clip plane) the loop does not read them; they are NaN here.
\<close>

definition rayContext :: "kernel \<Rightarrow> render_args \<Rightarrow> Ray \<Rightarrow> float \<Rightarrow> ray_ctx" where
  "rayContext k a ray tfar =
     (let ts = (if t_clipSphere k
                then snd (intersectSphere ray (sphereCenter a) (sphereRadius a))
                else (NaN, NaN));
          pl = (if t_clipPlane k then intersectPlane ray (planeNormal a) (planeDist a)
                else (NaN, NaN))
      in \<lparr> rc_tfar = tfar, rc_tsnear = fst ts, rc_tsfar = snd ts, rc_tpnear = snd pl,
           rc_nddot = fst pl, rc_step = f3scale (ray_d ray) (stepDist a) \<rparr>)"

definition initialState ::
  "kernel \<Rightarrow> device_env \<Rightarrow> render_args \<Rightarrow> 32 word \<Rightarrow> 32 word \<Rightarrow> Ray \<Rightarrow> float \<Rightarrow> ray_state" where
  "initialState k env a x y ray tnear =
     (let dst = (if 0 < t_mipMode k then backgroundColor a
                 else make_float4 (Fin 0) (Fin 0) (Fin 0) (Fin 0));
          pos = f3add (ray_o ray) (f3scale (ray_d ray) tnear);
          pos = (if t_jittering k then
                   (let randOffset = tex1D_randTexture env
                          (Fin (real (unat ((y * width a + x) mod NUM_RAND_VECS))))
                    in f3add pos (make_float3 (x4 randOffset) (y4 randOffset) (z4 randOffset)))
                 else pos)
      in \<lparr> rs_t = tnear, rs_pos = pos, rs_dst = dst, justClippedPlane = False,
           justClippedSphere = False, maxDiff = Fin 0,
           maxDiffDepth = make_float3 (Fin 0) (Fin 0) (Fin 0), lastAlpha = Fin 0,
           samples = 0 \<rparr>)"

datatype outcome = OutsideImage | MissedBox | MissedSphere | Traced ray_state

definition traceRay :: "kernel \<Rightarrow> device_env \<Rightarrow> render_args \<Rightarrow> 32 word \<Rightarrow> 32 word \<Rightarrow> outcome" where
  "traceRay k env a x y =
     (if width a \<le> x \<or> height a \<le> y then OutsideImage
      else
        let ray = generateRay env a x y
        in case probeHit env a x y of
             (hit, tnear, tfar) \<Rightarrow>
               if \<not> hit then MissedBox
               else
                 let tnear = quantizeNear a tnear
                 in if t_clipSphere k
                       \<and> \<not> fst (intersectSphere ray (sphereCenter a) (sphereRadius a))
                       \<and> t_useSphereAsProbe k
                    then MissedSphere
                    else Traced (renderLoop k env a (rayContext k a ray tfar) 0
                                   (initialState k env a x y ray tnear)))"

text \<open>
  Lines 533-560: the depth of the point of the largest increase of alpha.
  \<^verbatim>\<open>float(UINT_MAX)\<close> is \<open>2^32\<close>, the float nearest to \<open>2^32 - 1\<close>.
\<close>

definition emitDepth :: "device_env \<Rightarrow> render_args \<Rightarrow> float3 \<Rightarrow> nat" where
  "emitDepth env a p =
     (let depthWin = mulPost (c_MvPrMatrix env) (make_float4 (x3 p) (y3 p) (z3 p) (Fin 1));
          depth = perspectiveDivide depthWin;
          z = fadd (z3 depth) (Fin 1);
          z = fdiv z (Fin 2);
          z = (if fgt z (Fin 1) then Fin 1 else if flt z (Fin 0) then Fin 0 else z)
      in case dp a of
           VV_UCHAR \<Rightarrow> f2uint 8 (fmul z (Fin 255))
         | VV_USHORT \<Rightarrow> f2uint 16 (fmul z (Fin 65535))
         | VV_UINT \<Rightarrow> f2uint 32 (fmul z (Fin 4294967296)))"

definition pixelIndex :: "render_args \<Rightarrow> 32 word \<Rightarrow> 32 word \<Rightarrow> nat" where
  "pixelIndex a x y = unat (y * texwidth a + x)"

definition render ::
  "kernel \<Rightarrow> device_env \<Rightarrow> render_args \<Rightarrow> 32 word \<Rightarrow> 32 word \<Rightarrow> framebuffer \<Rightarrow> framebuffer" where
  "render k env a x y fb =
     (case traceRay k env a x y of
        OutsideImage \<Rightarrow> fb
      | MissedBox \<Rightarrow>
          (let fb1 = fb\<lparr> d_output := (d_output fb)(pixelIndex a x y := make_uchar4 0 0 0 0) \<rparr>
           in case dp a of
                VV_UCHAR \<Rightarrow> fb1\<lparr> d_depth := (d_depth fb1)(pixelIndex a x y := 0) \<rparr>
              | VV_USHORT \<Rightarrow> fb1\<lparr> d_depth := (d_depth fb1)(pixelIndex a x y := 0) \<rparr>
              | VV_UINT \<Rightarrow> fb1\<lparr> d_depth := (d_depth fb1)(pixelIndex a x y := 0) \<rparr>)
      | MissedSphere \<Rightarrow>
          fb\<lparr> d_output := (d_output fb)(pixelIndex a x y := make_uchar4 0 0 0 0) \<rparr>
      | Traced s \<Rightarrow>
          (let fb1 = fb\<lparr> d_depth := (d_depth fb)(pixelIndex a x y :=
                                         emitDepth env a (maxDiffDepth s)) \<rparr>
           in fb1\<lparr> d_output := (d_output fb1)(pixelIndex a x y := rgbaFloatToInt (rs_dst s)) \<rparr>))"

section \<open>Auxiliary notions for the proofs\<close>

text \<open>
  \<open>framesUploaded srcf B f st\<close>: each of the frames below \<open>f\<close> has a live device
  array that holds the first \<open>B\<close> bytes of \<open>srcf g\<close>. \<open>uploadedFrame f bytes st\<close>
  is the renderer after one pass of the frame loop in which the allocation and the copy
  succeeded.
\<close>

definition framesUploaded :: "(nat \<Rightarrow> uchar list) \<Rightarrow> nat \<Rightarrow> nat \<Rightarrow> vvRayRend \<Rightarrow> bool" where
  "framesUploaded srcf B f st =
     (\<forall>g<f. d_volumeArrays st ! g < nextHandle (dev st) \<and>
        (\<exists>a. arrays (dev st) (d_volumeArrays st ! g) = Some a \<and>
             contents a = Some (take B (srcf g))))"

definition uploadedFrame :: "nat \<Rightarrow> uchar list \<Rightarrow> vvRayRend \<Rightarrow> vvRayRend" where
  "uploadedFrame f bytes st =
     st\<lparr> d_volumeArrays := (d_volumeArrays st)[f := nextHandle (dev st)],
         volumeCopyToGpuOk := True,
         dev := (dev st)\<lparr> arrays := (arrays (dev st))(nextHandle (dev st) \<mapsto>
                    \<lparr> elemSize = channelDesc st, extent = volumeSize (vd st),
                      contents = Some (take (arrayBytes (channelDesc st) (volumeSize (vd st))) bytes) \<rparr>),
                  nextHandle := Suc (nextHandle (dev st)),
                  freeMem := freeMem (dev st) - arrayBytes (channelDesc st) (volumeSize (vd st)) \<rparr> \<rparr>"

text \<open>
  A volume of 1 x 1 x 1 voxels with two time frames, and a renderer in the state the
  constructor leaves it in before \<^verbatim>\<open>initVolumeTexture\<close>, on a device with
  \<open>mem\<close> free bytes.
\<close>

definition demoVolume :: "int \<Rightarrow> vvVolDesc" where
  "demoVolume b =
     \<lparr> vox = [1, 1, 1], bpc = b, frames = 2,
       getRaw = (\<lambda>f. if f = 0 then [0x12, 0x34] else [0xAB, 0xCD]),
       currentFrame = 0, getSize = [1, 1, 1] \<rparr>"

definition demoRenderer :: "int \<Rightarrow> nat \<Rightarrow> vvRayRend" where
  "demoRenderer b mem =
     \<lparr> vd = demoVolume b, volumeCopyToGpuOk = True, earlyRayTermination = True,
       illumination = False, interpolation = True, opacityCorrection = True,
       spaceSkipping = False, VV_CLIP_MODE = False, VV_IS_ROI_USED = False,
       VV_SPHERICAL_ROI = False, VV_MIP_MODE = 0, quality = 1, h_numCells = [16, 16, 16],
       h_cellMinValues = None, h_cellMaxValues = None, h_spaceSkippingArray = None,
       rgbaTF = None, d_volumeArrays = [], channelDesc = 0,
       volTexture8 = \<lparr> normalized = False, filterModeLinear = False, boundArray = 0 \<rparr>,
       volTexture16 = \<lparr> normalized = False, filterModeLinear = False, boundArray = 0 \<rparr>,
       depthPrecision = VV_UCHAR,
       dev = \<lparr> arrays = Map.empty, nextHandle = 1, freeMem = mem \<rparr> \<rparr>"


definition gridDemo :: vvRayRend where
  "gridDemo =
     (demoRenderer 1 0)
       \<lparr> vd := (demoVolume 1)\<lparr> vox := [2, 1, 1], frames := 1, getRaw := (\<lambda>f. [5, 9]),
                                getSize := [2, 1, 1] \<rparr>,
         h_numCells := [2, 1, 1] \<rparr>"

text \<open>
  A kernel launch on an image of 2 x 2 pixels with identity matrices, constant textures and
  step 1; the probe box has half-size 1 and centre \<open>(p, p, p)\<close>. The ray of pixel
  \<open>(1, 1)\<close> starts at \<open>(0, 0, -1)\<close> with direction \<open>(0, 0, 1)\<close>;
  \<open>demoContext\<close> and \<open>demoState\<close> are what the kernel's loop starts from on that ray
  for \<open>p = 0\<close>.
\<close>

definition idMatrix :: matrix4x4 where
  "idMatrix = (\<lambda>i j. if i = j then Fin 1 else Fin 0)"

definition demoEnv :: device_env where
  "demoEnv =
     \<lparr> c_invViewMatrix = idMatrix, c_MvPrMatrix = idMatrix,
       tex3D_volTexture8 = (\<lambda>x y z. Fin (1 / 2)),
       tex3D_volTexture16 = (\<lambda>x y z. Fin (1 / 2)),
       tex1D_tfTexture = (\<lambda>c. make_float4 (Fin 1) (Fin 1) (Fin 0) (Fin (1 / 2))),
       tex1D_randTexture = (\<lambda>c. make_float4 (Fin 0) (Fin 0) (Fin 0) (Fin 0)) \<rparr>"

definition demoArgs :: "real \<Rightarrow> render_args" where
  "demoArgs p =
     \<lparr> width = 2, height = 2,
       backgroundColor = make_float4 (Fin 0) (Fin 0) (Fin 0) (Fin 0),
       texwidth = 2, stepDist = Fin 1,
       volPos = make_float3 (Fin 0) (Fin 0) (Fin 0),
       volSizeHalf = make_float3 (Fin 1) (Fin 1) (Fin 1),
       probePos = make_float3 (Fin p) (Fin p) (Fin p),
       probeSizeHalf = make_float3 (Fin 1) (Fin 1) (Fin 1),
       lightL = make_float3 (Fin 0) (Fin 0) (Fin 1),
       halfH = make_float3 (Fin 0) (Fin 0) (Fin 1),
       sphereCenter = make_float3 (Fin 0) (Fin 0) (Fin 0), sphereRadius = Fin 1,
       planeNormal = make_float3 (Fin 0) (Fin 1) (Fin 0), planeDist = Fin 0,
       dp = VV_UCHAR \<rparr>"

definition demoKernel :: "int \<Rightarrow> kernel" where
  "demoKernel m =
     \<lparr> t_earlyRayTermination = (m = 0), t_spaceSkipping = True, t_frontToBack = True,
       t_bpc = 1, t_mipMode = m, t_lighting = False, t_opacityCorrection = False,
       t_jittering = False, t_clipPlane = False, t_clipSphere = False,
       t_useSphereAsProbe = False \<rparr>"

text \<open>
  A renderer with a spherical region of interest, and the launch above with the clip
  sphere (squared radius 1) centred at \<open>(5, 0, 0)\<close>, which the ray of pixel
  \<open>(1, 1)\<close> does not meet.
\<close>

definition sphereRenderer :: vvRayRend where
  "sphereRenderer = (demoRenderer 1 0)\<lparr> VV_IS_ROI_USED := True, VV_SPHERICAL_ROI := True \<rparr>"

definition sphereArgs :: render_args where
  "sphereArgs = (demoArgs 0)\<lparr> sphereCenter := make_float3 (Fin 5) (Fin 0) (Fin 0) \<rparr>"

definition demoBuffer :: framebuffer where
  "demoBuffer = \<lparr> d_output = (\<lambda>i. make_uchar4 9 9 9 9), d_depth = (\<lambda>i. 7) \<rparr>"

definition demoContext :: ray_ctx where
  "demoContext =
     \<lparr> rc_tfar = Fin 2, rc_tsnear = NaN, rc_tsfar = NaN, rc_tpnear = NaN, rc_nddot = NaN,
       rc_step = make_float3 (Fin 0) (Fin 0) (Fin 1) \<rparr>"

definition demoState :: ray_state where
  "demoState =
     \<lparr> rs_t = Fin 0, rs_pos = make_float3 (Fin 0) (Fin 0) (Fin (- 1)),
       rs_dst = make_float4 (Fin 0) (Fin 0) (Fin 0) (Fin 0), justClippedPlane = False,
       justClippedSphere = False, maxDiff = Fin 0,
       maxDiffDepth = make_float3 (Fin 0) (Fin 0) (Fin 0), lastAlpha = Fin 0, samples = 0 \<rparr>"

section \<open>Properties of the dispatcher\<close>

lemma getKernelWithSphereAsProbe_ert:
  "t_earlyRayTermination
     (getKernelWithSphereAsProbe bp illum opcorr ert clipPlane clipSphere sphereAsProbe r)
   = (ert \<and> VV_MIP_MODE r \<noteq> 1 \<and> VV_MIP_MODE r \<noteq> 2)"
  by (simp add: getKernelWithSphereAsProbe_def getKernelWithMip_def)

lemma getKernelWithSphereAsProbe_mip:
  "t_mipMode
     (getKernelWithSphereAsProbe bp illum opcorr ert clipPlane clipSphere sphereAsProbe r)
   = (if VV_MIP_MODE r = 1 then 1 else if VV_MIP_MODE r = 2 then 2 else 0)"
  by (simp add: getKernelWithSphereAsProbe_def getKernelWithMip_def)

text \<open>
  Claim C3. For every renderer state, the kernel chosen by \<^verbatim>\<open>getKernel\<close> has early-ray
  termination switched off when the MIP mode parameter is 1 (MAX) or 2 (MIN), and carries
  the renderer's own early-ray-termination setting when the parameter is 0 or any other
  value; in that last case the kernel's MIP mode is 0.
\<close>

theorem getKernel_early_ray_termination:
  "t_earlyRayTermination (getKernel r)
     = (if VV_MIP_MODE r = 1 \<or> VV_MIP_MODE r = 2 then False else earlyRayTermination r)
   \<and> t_mipMode (getKernel r)
     = (if VV_MIP_MODE r = 1 then 1 else if VV_MIP_MODE r = 2 then 2 else 0)"
  by (simp add: getKernel_def getKernelWithBpc_def getKernelWithIllumination_def
      getKernelWithOpacityCorrection_def getKernelWithEarlyRayTermination_def
      getKernelWithClipPlane_def getKernelWithSphereAsProbe_ert
      getKernelWithSphereAsProbe_mip)

section \<open>Properties of the volume store\<close>

subsection \<open>The 16-bit transform\<close>

lemma or_disj: "(push_bit 8 (ucast (a::8 word) :: 32 word) OR ucast (b::8 word)) = push_bit 8 (ucast a) + ucast b"
  by (rule disjunctive_add [symmetric]) (auto simp: bit_push_bit_iff bit_ucast_iff dest: bit_imp_le_length)

lemma unat8: "unat (a::8 word) < 256"
  using unsigned_less [of a, where 'a = nat] by simp

lemma unat_uc: "unat (ucast (a::8 word) :: 32 word) = unat a"
  using unat8 [of a] by (simp add: unsigned_ucast_eq take_bit_nat_eq_self)

lemma unat_hi: "unat (push_bit 8 (ucast (a::8 word) :: 32 word)) = 256 * unat a"
proof -
  have "unat (push_bit 8 (ucast a :: 32 word)) = take_bit 32 (push_bit 8 (unat a))"
    by (simp only: unsigned_push_bit_eq unat_uc) simp
  also have "\<dots> = 256 * unat a"
    using unat8 [of a] by (simp add: take_bit_nat_eq_self push_bit_eq_mult)
  finally show ?thesis .
qed

lemma unat_sum: "unat (push_bit 8 (ucast (a::8 word) :: 32 word) + ucast (b::8 word)) = 256 * unat a + unat b"
proof -
  have "unat (push_bit 8 (ucast a :: 32 word)) + unat (ucast b :: 32 word) < 2 ^ LENGTH(32)"
    using unat8 [of a] unat8 [of b] by (simp add: unat_hi unat_uc)
  then have "unat (push_bit 8 (ucast a :: 32 word) + ucast b) = unat (push_bit 8 (ucast a :: 32 word)) + unat (ucast b :: 32 word)"
    by (simp only: unat_add_lem)
  then show ?thesis by (simp add: unat_hi unat_uc)
qed

lemma unat_rebit_val: "unat (rebit_val a b) = ((256 * unat a + unat b) div 16) mod 256"
proof -
  have "unat (rebit_val a b) = take_bit 8 (drop_bit 4 (unat (push_bit 8 (ucast a :: 32 word) + ucast b)))"
    by (simp only: rebit_val_def or_disj unsigned_ucast_eq unat_drop_bit_eq) simp
  also have "\<dots> = ((256 * unat a + unat b) div 16) mod 256"
    by (simp only: unat_sum) (simp add: drop_bit_eq_div take_bit_eq_mod)
  finally show ?thesis .
qed

lemma rebit_loop_result:
  "even i \<Longrightarrow> even sz \<Longrightarrow> sz \<le> length raw \<Longrightarrow> length data = sz \<Longrightarrow>
   \<exists>out. rebit_loop i sz raw data = Inr out \<and> length out = sz \<and>
     (\<forall>j. j < i \<longrightarrow> out ! j = data ! j) \<and>
     (\<forall>j. i \<le> j \<and> j < sz \<and> even j \<longrightarrow>
        out ! j = raw ! j \<and> out ! (j + 1) = rebit_val (raw ! j) (raw ! (j + 1)))"
proof (induction i sz raw data rule: rebit_loop.induct)
  case (1 i sz raw data)
  show ?case
  proof (cases "i < sz")
    case False
    with "1.prems" show ?thesis by (auto simp: rebit_loop.simps)
  next
    case True
    with "1.prems" have i1: "i + 1 < sz" by presburger
    let ?d = "data[i := raw ! i, i + 1 := rebit_val (raw ! i) (raw ! (i + 1))]"
    have nb: "\<not> (length raw \<le> i + 1 \<or> length data \<le> i + 1)"
      using i1 "1.prems" by simp
    have unf: "rebit_loop i sz raw data = rebit_loop (i + 2) sz raw ?d"
      using True nb by (subst rebit_loop.simps) simp
    from "1.IH" [OF True nb] "1.prems"
    obtain out where out: "rebit_loop (i + 2) sz raw ?d = Inr out" "length out = sz"
      "\<forall>j. j < i + 2 \<longrightarrow> out ! j = ?d ! j"
      "\<forall>j. i + 2 \<le> j \<and> j < sz \<and> even j \<longrightarrow>
        out ! j = raw ! j \<and> out ! (j + 1) = rebit_val (raw ! j) (raw ! (j + 1))"
      by auto
    have a: "\<forall>j. j < i \<longrightarrow> out ! j = data ! j"
      using out(3) by simp
    have b: "out ! i = raw ! i" "out ! (i + 1) = rebit_val (raw ! i) (raw ! (i + 1))"
      using out(3) i1 "1.prems" by simp_all
    have c: "\<forall>j. i \<le> j \<and> j < sz \<and> even j \<longrightarrow>
        out ! j = raw ! j \<and> out ! (j + 1) = rebit_val (raw ! j) (raw ! (j + 1))"
    proof (intro allI impI)
      fix j assume j: "i \<le> j \<and> j < sz \<and> even j"
      show "out ! j = raw ! j \<and> out ! (j + 1) = rebit_val (raw ! j) (raw ! (j + 1))"
      proof (cases "j = i")
        case True
        then show ?thesis using b by simp
      next
        case False
        with j "1.prems" have "i + 2 \<le> j" by presburger
        with j out(4) show ?thesis by simp
      qed
    qed
    show ?thesis using unf out(1,2) a c by simp
  qed
qed

text \<open>
  Claim C7, as amended. For \<^verbatim>\<open>bpc = 2\<close> the transform maps every byte pair
  \<^verbatim>\<open>(raw[i], raw[i + 1])\<close>, \<open>i\<close> even, to an output pair that depends on that
  pair only. The pair is read as the big-endian 16-bit value
  \<open>256 * raw[i] + raw[i + 1]\<close> and shifted right by 4. The first byte of the pair, the
  high byte of that value, is copied through unchanged to \<^verbatim>\<open>data[i]\<close>; the second
  byte, the low byte of that value, is replaced in \<^verbatim>\<open>data[i + 1]\<close> by the shifted
  result modulo \<open>2^8\<close>.
\<close>

theorem rebit_transform:
  assumes "even sz" and "sz \<le> length raw"
  shows "\<exists>data. rebit sz raw = Inr data \<and> length data = sz \<and>
     (\<forall>i. i < sz \<and> even i \<longrightarrow>
        data ! i = raw ! i \<and>
        unat (data ! (i + 1)) = ((256 * unat (raw ! i) + unat (raw ! (i + 1))) div 2 ^ 4) mod 2 ^ 8)"
proof -
  from rebit_loop_result [of 0 sz raw "replicate sz 0"] assms
  obtain out where "rebit sz raw = Inr out" "length out = sz"
    "\<forall>j. j < sz \<and> even j \<longrightarrow>
        out ! j = raw ! j \<and> out ! (j + 1) = rebit_val (raw ! j) (raw ! (j + 1))"
    by (auto simp: rebit_def)
  then show ?thesis by (auto simp: unat_rebit_val)
qed

theorem rebit_transform_witness:
  "even (2::nat) \<and> 2 \<le> length [0x12, 0x34 :: uchar] \<and>
   (\<exists>data. rebit 2 [0x12, 0x34] = Inr data \<and> length data = 2 \<and>
      data ! 0 = 0x12 \<and> unat (data ! 1) = 0x23)"
  using rebit_transform [of 2 "[0x12, 0x34]"] by fastforce

text \<open>
  The claim as stated has the two bytes the other way round: the low byte copied through
  and the high byte replaced. On the pair \<open>(0x12, 0x34)\<close>, the value \<open>0x1234\<close>
  with shifted result \<open>0x123\<close>, that gives \<open>(0x23, 0x34)\<close>; the code gives
  \<open>(0x12, 0x23)\<close>.
\<close>

theorem rebit_pair_spec_counterexample:
  "rebit 2 [0x12, 0x34] = Inr [0x12, 0x23] \<and>
   rebit_pair_spec 0x12 0x34 = (0x23, 0x34) \<and>
   rebit 2 [0x12, 0x34] \<noteq> Inr [fst (rebit_pair_spec 0x12 0x34), snd (rebit_pair_spec 0x12 0x34)]"
proof -
  have v: "rebit_val 0x12 0x34 = 0x23"
    by (rule word_unat_eq_iff [THEN iffD2]) (simp add: unat_rebit_val)
  have c: "rebit 2 [0x12, 0x34] = Inr [0x12, 0x23]"
    by (simp add: rebit_def rebit_loop.simps v numeral_2_eq_2)
  have s: "rebit_pair_spec 0x12 0x34 = (0x23, 0x34)"
    by (simp add: rebit_pair_spec_def)
  show ?thesis by (simp add: c s)
qed

subsection \<open>Upload of the frames\<close>

lemma uploadFrames_step:
  assumes "volumeCopyToGpuOk st"
    and "channelDesc st \<noteq> 0"
    and "int f < frames (vd st)"
    and "length (d_volumeArrays st) = nat (frames (vd st))"
    and "arrayBytes (channelDesc st) (volumeSize (vd st)) \<le> freeMem (dev st)"
    and "frameSource (vd st) f = Inr (Some bytes)"
    and "arrayBytes (channelDesc st) (volumeSize (vd st)) \<le> length bytes"
  shows "uploadFrames f st = uploadFrames (f + 1) (uploadedFrame f bytes st)"
proof -
  let ?h = "nextHandle (dev st)"
  let ?dv = "(dev st)\<lparr> arrays := (arrays (dev st))(?h \<mapsto>
                 \<lparr> elemSize = channelDesc st, extent = volumeSize (vd st), contents = None \<rparr>),
             nextHandle := Suc ?h,
             freeMem := freeMem (dev st) - arrayBytes (channelDesc st) (volumeSize (vd st)) \<rparr>"
  have al: "cudaMalloc3DArray (dev st) (channelDesc st) (volumeSize (vd st)) = (cudaSuccess, ?dv, Some ?h)"
    using assms(2,5) by (simp add: cudaMalloc3DArray_def)
  have fl: "f < length (d_volumeArrays st)" using assms(3,4) by simp
  have cp: "cudaMemcpy3D ?dv (Some bytes) ?h (volumeSize (vd st))
              = (cudaSuccess, dev (uploadedFrame f bytes st))"
    using assms(7) by (simp add: cudaMemcpy3D_def uploadedFrame_def)
  show ?thesis
    using assms(1,3,6) al fl cp
    by (subst uploadFrames.simps) (simp add: Let_def checkError_def uploadedFrame_def)
qed

lemma uploadedFrame_fields:
  "vd (uploadedFrame f bytes st) = vd st"
  "volumeCopyToGpuOk (uploadedFrame f bytes st)"
  "channelDesc (uploadedFrame f bytes st) = channelDesc st"
  "interpolation (uploadedFrame f bytes st) = interpolation st"
  "length (d_volumeArrays (uploadedFrame f bytes st)) = length (d_volumeArrays st)"
  "freeMem (dev (uploadedFrame f bytes st))
     = freeMem (dev st) - arrayBytes (channelDesc st) (volumeSize (vd st))"
  by (simp_all add: uploadedFrame_def)

lemma framesUploaded_step:
  assumes "framesUploaded srcf B f st"
    and "f < length (d_volumeArrays st)"
    and "B = arrayBytes (channelDesc st) (volumeSize (vd st))"
  shows "framesUploaded srcf B (Suc f) (uploadedFrame f (srcf f) st)"
  unfolding framesUploaded_def
proof (intro allI impI)
  fix g assume g: "g < Suc f"
  let ?st = "uploadedFrame f (srcf f) st"
  show "d_volumeArrays ?st ! g < nextHandle (dev ?st) \<and>
        (\<exists>a. arrays (dev ?st) (d_volumeArrays ?st ! g) = Some a \<and>
             contents a = Some (take B (srcf g)))"
  proof (cases "g = f")
    case True
    then show ?thesis using assms(2,3) by (simp add: uploadedFrame_def)
  next
    case False
    with g have "g < f" by simp
    with assms(1) have "d_volumeArrays st ! g < nextHandle (dev st)"
      "\<exists>a. arrays (dev st) (d_volumeArrays st ! g) = Some a \<and>
             contents a = Some (take B (srcf g))"
      by (simp_all add: framesUploaded_def)
    then show ?thesis using False by (auto simp: uploadedFrame_def)
  qed
qed

lemma uploadFrames_all:
  assumes "k = nat (frames (vd st)) - f"
    and "volumeCopyToGpuOk st"
    and "channelDesc st \<noteq> 0"
    and "B = arrayBytes (channelDesc st) (volumeSize (vd st))"
    and "length (d_volumeArrays st) = nat (frames (vd st))"
    and "k * B \<le> freeMem (dev st)"
    and "\<forall>g. int g < frames (vd st) \<longrightarrow>
           frameSource (vd st) g = Inr (Some (srcf g)) \<and> B \<le> length (srcf g)"
    and "framesUploaded srcf B f st"
  shows "\<exists>st'. uploadFrames f st = Inr (st', - 1) \<and> vd st' = vd st \<and>
           volumeCopyToGpuOk st' \<and> interpolation st' = interpolation st \<and>
           length (d_volumeArrays st') = nat (frames (vd st)) \<and>
           framesUploaded srcf B (max f (nat (frames (vd st)))) st'"
  using assms
proof (induction k arbitrary: f st)
  case 0
  then have "\<not> int f < frames (vd st)" and "max f (nat (frames (vd st))) = f" by simp_all
  with "0.prems" show ?case by (simp add: uploadFrames.simps)
next
  case (Suc k)
  let ?st = "uploadedFrame f (srcf f) st"
  from Suc.prems(1) have lt: "int f < frames (vd st)" and fF: "f < nat (frames (vd st))"
    by simp_all
  from Suc.prems(6) have B: "B \<le> freeMem (dev st)" and kB: "k * B \<le> freeMem (dev st) - B"
    by simp_all
  have step: "uploadFrames f st = uploadFrames (f + 1) ?st"
    using Suc.prems lt B by (intro uploadFrames_step) simp_all
  have "\<exists>st'. uploadFrames (Suc f) ?st = Inr (st', - 1) \<and> vd st' = vd ?st \<and>
           volumeCopyToGpuOk st' \<and> interpolation st' = interpolation ?st \<and>
           length (d_volumeArrays st') = nat (frames (vd ?st)) \<and>
           framesUploaded srcf B (max (Suc f) (nat (frames (vd ?st)))) st'"
  proof (rule Suc.IH)
    show "k = nat (frames (vd ?st)) - Suc f"
      using Suc.prems(1) by (simp add: uploadedFrame_fields)
    show "framesUploaded srcf B (Suc f) ?st"
      using Suc.prems fF by (intro framesUploaded_step) simp_all
  qed (use Suc.prems kB in \<open>simp_all add: uploadedFrame_fields\<close>)
  moreover have "max (Suc f) (nat (frames (vd st))) = max f (nat (frames (vd st)))"
    using fF by simp
  ultimately show ?case using step by (simp add: uploadedFrame_fields)
qed

lemma initVolumeTexture_uploaded:
  assumes ok: "volumeCopyToGpuOk st"
    and fr: "0 < frames (vd st)"
    and bp: "bpc (vd st) = 1 \<or> bpc (vd st) = 2"
    and B: "B = arrayBytes (nat (bpc (vd st))) (volumeSize (vd st))"
    and mem: "nat (frames (vd st)) * B \<le> freeMem (dev st)"
    and src: "\<forall>g. int g < frames (vd st) \<longrightarrow>
           frameSource (vd st) g = Inr (Some (srcf g)) \<and> B \<le> length (srcf g)"
  shows "\<exists>st'. initVolumeTexture st = Inr st' \<and> volumeCopyToGpuOk st' \<and>
           framesUploaded srcf B (nat (frames (vd st))) st'"
proof -
  let ?st0 = "st\<lparr> channelDesc := (if bpc (vd st) = 1 then 1 else if bpc (vd st) = 2 then 2
                       else channelDesc st),
                    d_volumeArrays := resize (d_volumeArrays st) (nat (frames (vd st))) \<rparr>"
  have cd: "channelDesc ?st0 = nat (bpc (vd st))" using bp by auto
  have "\<exists>st'. uploadFrames 0 ?st0 = Inr (st', - 1) \<and> vd st' = vd ?st0 \<and>
           volumeCopyToGpuOk st' \<and> interpolation st' = interpolation ?st0 \<and>
           length (d_volumeArrays st') = nat (frames (vd ?st0)) \<and>
           framesUploaded srcf B (max 0 (nat (frames (vd ?st0)))) st'"
  proof (rule uploadFrames_all)
    show "nat (frames (vd st)) = nat (frames (vd ?st0)) - 0" by simp
    show "channelDesc ?st0 \<noteq> 0" using bp by auto
    show "B = arrayBytes (channelDesc ?st0) (volumeSize (vd ?st0))"
      using B cd by simp
    show "length (d_volumeArrays ?st0) = nat (frames (vd ?st0))"
      by (simp add: resize_def)
    show "framesUploaded srcf B 0 ?st0" by (simp add: framesUploaded_def)
  qed (use ok mem src in simp_all)
  then obtain st1 where st1: "uploadFrames 0 ?st0 = Inr (st1, - 1)" "vd st1 = vd st"
    "volumeCopyToGpuOk st1" "length (d_volumeArrays st1) = nat (frames (vd st))"
    "framesUploaded srcf B (nat (frames (vd st))) st1"
    by auto
  from st1(4) fr have ne: "d_volumeArrays st1 \<noteq> []" by auto
  have "initVolumeTexture st =
          Inr (if bpc (vd st) = 1 then st1\<lparr> volTexture8 := bindVolumeTexture st1 \<rparr>
               else st1\<lparr> volTexture16 := bindVolumeTexture st1 \<rparr>)"
    using st1(1,2,3) ne bp by (auto simp: initVolumeTexture_def Let_def)
  moreover have "framesUploaded srcf B (nat (frames (vd st))) (st1\<lparr> volTexture8 := t \<rparr>)"
    "framesUploaded srcf B (nat (frames (vd st))) (st1\<lparr> volTexture16 := t \<rparr>)" for t
    using st1(5) by (simp_all add: framesUploaded_def)
  ultimately show ?thesis using st1(3) by auto
qed

lemma arrayBytes_volume:
  assumes "0 \<le> vox v ! 0" "0 \<le> vox v ! 1" "0 \<le> vox v ! 2" "0 \<le> b"
  shows "arrayBytes (nat b) (volumeSize v) = nat (vox v ! 0 * vox v ! 1 * vox v ! 2 * b)"
  using assms by (simp add: arrayBytes_def volumeSize_def nat_mult_distrib ac_simps)

lemma rebitSize_in_range:
  assumes "0 \<le> vox v ! 0" "0 \<le> vox v ! 1" "0 \<le> vox v ! 2" "1 \<le> bpc v"
    and "vox v ! 0 * vox v ! 1 \<le> INT_MAX"
    and "vox v ! 0 * vox v ! 1 * vox v ! 2 * bpc v \<le> INT_MAX"
  shows "rebitSize v = Inr (vox v ! 0 * vox v ! 1 * vox v ! 2 * bpc v)"
proof -
  let ?p = "vox v ! 0 * vox v ! 1"
  let ?q = "?p * vox v ! 2"
  have p: "0 \<le> ?p" using assms(1,2) by simp
  have q: "0 \<le> ?q" using p assms(3) by simp
  have "?q * 1 \<le> ?q * bpc v" using q assms(4) by (rule mult_left_mono [rotated])
  then have q': "?q \<le> INT_MAX" using assms(6) by simp
  have r: "0 \<le> ?q * bpc v" using q assms(4) by simp
  show ?thesis
    using p q r q' assms(5,6) by (simp add: rebitSize_def int_mul_def INT_MIN_def)
qed

lemma rebitSize_overflow:
  "rebitSize ((demoVolume 2)\<lparr> vox := [1024, 1024, 1024] \<rparr>) = Inl IntOverflow"
  "frameSource ((demoVolume 2)\<lparr> vox := [1024, 1024, 1024] \<rparr>) f = Inl IntOverflow"
  by (simp_all add: frameSource_def rebitSize_def int_mul_def INT_MIN_def INT_MAX_def
      demoVolume_def)

lemma rebit_demo: "rebit 2 [0x12, 0x34] = Inr [0x12, 0x23]"
proof -
  have v: "rebit_val 0x12 0x34 = 0x23"
    by (rule word_unat_eq_iff [THEN iffD2]) (simp add: unat_rebit_val)
  show ?thesis
    by (simp add: rebit_def rebit_loop.simps v numeral_2_eq_2)
qed

text \<open>
  Claim C10. When every allocation succeeds, \<^verbatim>\<open>initVolumeTexture\<close> leaves for
  \<^verbatim>\<open>bpc = 2\<close> in the device array of every frame \<open>f\<close> the same bytes
  \<open>data\<close>, whatever \<open>f\<close> is: the transform of the raw buffer of frame 0, whose byte
  pairs are \<open>data[i] = raw0[i]\<close> and
  \<open>data[i + 1] = ((256 * raw0[i] + raw0[i + 1]) div 2^4) mod 2^8\<close> for every even
  \<open>i\<close> below the byte count \<open>n\<close>. This needs the byte count
  \<^verbatim>\<open>vox[0] * vox[1] * vox[2] * bpc\<close> and the product \<^verbatim>\<open>vox[0] * vox[1]\<close> on the
  way to it to fit the \<^verbatim>\<open>int\<close> they are computed in. For \<^verbatim>\<open>bpc = 1\<close> the array
  of frame \<open>f\<close> holds the frame's own raw bytes \<^verbatim>\<open>vd->getRaw(f)\<close>.
\<close>

theorem initVolumeTexture_frame_data:
  assumes "volumeCopyToGpuOk st"
    and "0 < frames (vd st)"
    and "0 \<le> vox (vd st) ! 0" and "0 \<le> vox (vd st) ! 1" and "0 \<le> vox (vd st) ! 2"
    and "n = nat (vox (vd st) ! 0 * vox (vd st) ! 1 * vox (vd st) ! 2 * bpc (vd st))"
    and "nat (frames (vd st)) * n \<le> freeMem (dev st)"
    and "\<forall>f. n \<le> length (getRaw (vd st) f)"
  shows "(bpc (vd st) = 2 \<and> vox (vd st) ! 0 * vox (vd st) ! 1 \<le> INT_MAX \<and> int n \<le> INT_MAX \<longrightarrow>
           (\<exists>st' data. initVolumeTexture st = Inr st' \<and>
              rebit n (getRaw (vd st) 0) = Inr data \<and> length data = n \<and>
              (\<forall>i. i < n \<and> even i \<longrightarrow>
                 data ! i = getRaw (vd st) 0 ! i \<and>
                 unat (data ! (i + 1)) =
                   ((256 * unat (getRaw (vd st) 0 ! i) + unat (getRaw (vd st) 0 ! (i + 1)))
                      div 2 ^ 4) mod 2 ^ 8) \<and>
              (\<forall>f. int f < frames (vd st) \<longrightarrow>
                 (\<exists>a. arrays (dev st') (d_volumeArrays st' ! f) = Some a \<and>
                      contents a = Some data)))) \<and>
         (bpc (vd st) = 1 \<longrightarrow>
           (\<exists>st'. initVolumeTexture st = Inr st' \<and>
              (\<forall>f. int f < frames (vd st) \<longrightarrow>
                 (\<exists>a. arrays (dev st') (d_volumeArrays st' ! f) = Some a \<and>
                      contents a = Some (take n (getRaw (vd st) f))))))"
proof (intro conjI impI)
  assume b: "bpc (vd st) = 2 \<and> vox (vd st) ! 0 * vox (vd st) ! 1 \<le> INT_MAX \<and> int n \<le> INT_MAX"
  then have b2: "bpc (vd st) = 2" by simp
  let ?sz = "vox (vd st) ! 0 * vox (vd st) ! 1 * vox (vd st) ! 2 * bpc (vd st)"
  have nn: "0 \<le> ?sz" using assms(3,4,5) b2 by simp
  then have sz: "?sz = int n" using assms(6) by simp
  have ev: "even n" using nn assms(6) b2 by (simp add: even_nat_iff)
  have rs: "rebitSize (vd st) = Inr ?sz"
    using assms(3,4,5) b sz by (intro rebitSize_in_range) simp_all
  from rebit_loop_result [of 0 n "getRaw (vd st) 0" "replicate n 0"] ev assms(8)
  obtain data where data: "rebit n (getRaw (vd st) 0) = Inr data" "length data = n"
    "\<forall>j. j < n \<and> even j \<longrightarrow>
        data ! j = getRaw (vd st) 0 ! j \<and>
        data ! (j + 1) = rebit_val (getRaw (vd st) 0 ! j) (getRaw (vd st) 0 ! (j + 1))"
    by (auto simp: rebit_def)
  have bytes: "\<forall>i. i < n \<and> even i \<longrightarrow>
                 data ! i = getRaw (vd st) 0 ! i \<and>
                 unat (data ! (i + 1)) =
                   ((256 * unat (getRaw (vd st) 0 ! i) + unat (getRaw (vd st) 0 ! (i + 1)))
                      div 2 ^ 4) mod 2 ^ 8"
    using data(3) by (simp add: unat_rebit_val)
  have nB: "n = arrayBytes (nat (bpc (vd st))) (volumeSize (vd st))"
    using arrayBytes_volume [of "vd st" "bpc (vd st)"] assms(3,4,5,6) b2 by simp
  have up: "\<exists>st'. initVolumeTexture st = Inr st' \<and> volumeCopyToGpuOk st' \<and>
           framesUploaded (\<lambda>g. data) n (nat (frames (vd st))) st'"
  proof (rule initVolumeTexture_uploaded)
    have "frameSource (vd st) g = Inr (Some data)" for g
      using data(1) b2 rs nn assms(6) by (simp add: frameSource_def)
    then show "\<forall>g. int g < frames (vd st) \<longrightarrow>
           frameSource (vd st) g = Inr (Some data) \<and> n \<le> length data"
      using data(2) by simp
  qed (use assms(1,2,7) b2 nB in simp_all)
  then obtain st' where st': "initVolumeTexture st = Inr st'"
    "framesUploaded (\<lambda>g. data) n (nat (frames (vd st))) st'"
    by blast
  have "\<forall>f. int f < frames (vd st) \<longrightarrow>
          (\<exists>a. arrays (dev st') (d_volumeArrays st' ! f) = Some a \<and> contents a = Some data)"
    using st'(2) data(2) by (auto simp: framesUploaded_def)
  with st'(1) data(1,2) bytes
  show "\<exists>st' data. initVolumeTexture st = Inr st' \<and>
              rebit n (getRaw (vd st) 0) = Inr data \<and> length data = n \<and>
              (\<forall>i. i < n \<and> even i \<longrightarrow>
                 data ! i = getRaw (vd st) 0 ! i \<and>
                 unat (data ! (i + 1)) =
                   ((256 * unat (getRaw (vd st) 0 ! i) + unat (getRaw (vd st) 0 ! (i + 1)))
                      div 2 ^ 4) mod 2 ^ 8) \<and>
              (\<forall>f. int f < frames (vd st) \<longrightarrow>
                 (\<exists>a. arrays (dev st') (d_volumeArrays st' ! f) = Some a \<and>
                      contents a = Some data))"
    by blast
next
  assume b1: "bpc (vd st) = 1"
  have nB: "n = arrayBytes (nat (bpc (vd st))) (volumeSize (vd st))"
    using arrayBytes_volume [of "vd st" "bpc (vd st)"] assms(3,4,5,6) b1 by simp
  have "\<exists>st'. initVolumeTexture st = Inr st' \<and> volumeCopyToGpuOk st' \<and>
           framesUploaded (getRaw (vd st)) n (nat (frames (vd st))) st'"
    using assms(1,2,7,8) b1 nB
    by (intro initVolumeTexture_uploaded) (simp_all add: frameSource_def)
  then show "\<exists>st'. initVolumeTexture st = Inr st' \<and>
              (\<forall>f. int f < frames (vd st) \<longrightarrow>
                 (\<exists>a. arrays (dev st') (d_volumeArrays st' ! f) = Some a \<and>
                      contents a = Some (take n (getRaw (vd st) f))))"
    by (auto simp: framesUploaded_def)
qed

theorem initVolumeTexture_frame_data_witness:
  "(\<exists>st' a0 a1. initVolumeTexture (demoRenderer 2 4) = Inr st' \<and>
       arrays (dev st') (d_volumeArrays st' ! 0) = Some a0 \<and> contents a0 = Some [0x12, 0x23] \<and>
       arrays (dev st') (d_volumeArrays st' ! 1) = Some a1 \<and> contents a1 = Some [0x12, 0x23]) \<and>
   (\<exists>st' a0 a1. initVolumeTexture (demoRenderer 1 2) = Inr st' \<and>
       arrays (dev st') (d_volumeArrays st' ! 0) = Some a0 \<and> contents a0 = Some [0x12] \<and>
       arrays (dev st') (d_volumeArrays st' ! 1) = Some a1 \<and> contents a1 = Some [0xAB])"
proof -
  have "\<exists>st' data. initVolumeTexture (demoRenderer 2 4) = Inr st' \<and>
       rebit 2 (getRaw (vd (demoRenderer 2 4)) 0) = Inr data \<and> length data = 2 \<and>
       (\<forall>i. i < 2 \<and> even i \<longrightarrow>
          data ! i = getRaw (vd (demoRenderer 2 4)) 0 ! i \<and>
          unat (data ! (i + 1)) =
            ((256 * unat (getRaw (vd (demoRenderer 2 4)) 0 ! i)
                + unat (getRaw (vd (demoRenderer 2 4)) 0 ! (i + 1))) div 2 ^ 4) mod 2 ^ 8) \<and>
       (\<forall>f. int f < 2 \<longrightarrow>
          (\<exists>a. arrays (dev st') (d_volumeArrays st' ! f) = Some a \<and> contents a = Some data))"
    using initVolumeTexture_frame_data [of "demoRenderer 2 4" 2]
    by (simp add: demoRenderer_def demoVolume_def INT_MAX_def)
  moreover have "getRaw (vd (demoRenderer 2 4)) 0 = [0x12, 0x34]"
    by (simp add: demoRenderer_def demoVolume_def)
  ultimately have two: "\<exists>st' data. initVolumeTexture (demoRenderer 2 4) = Inr st' \<and>
       rebit 2 [0x12, 0x34] = Inr data \<and>
       (\<forall>f. int f < 2 \<longrightarrow>
          (\<exists>a. arrays (dev st') (d_volumeArrays st' ! f) = Some a \<and> contents a = Some data))"
    by auto
  have one: "\<exists>st'. initVolumeTexture (demoRenderer 1 2) = Inr st' \<and>
       (\<forall>f. int f < 2 \<longrightarrow>
          (\<exists>a. arrays (dev st') (d_volumeArrays st' ! f) = Some a \<and>
               contents a = Some (take 1 (getRaw (vd (demoRenderer 1 2)) f))))"
    using initVolumeTexture_frame_data [of "demoRenderer 1 2" 1]
    by (simp add: demoRenderer_def demoVolume_def)
  have f: "int 0 < 2" "int 1 < 2" by simp_all
  from two obtain st' where st': "initVolumeTexture (demoRenderer 2 4) = Inr st'"
    "\<forall>f. int f < 2 \<longrightarrow>
       (\<exists>a. arrays (dev st') (d_volumeArrays st' ! f) = Some a \<and>
            contents a = Some [0x12, 0x23])"
    by (auto simp: rebit_demo)
  from st'(2) f have "\<exists>a0 a1.
       arrays (dev st') (d_volumeArrays st' ! 0) = Some a0 \<and> contents a0 = Some [0x12, 0x23] \<and>
       arrays (dev st') (d_volumeArrays st' ! 1) = Some a1 \<and> contents a1 = Some [0x12, 0x23]"
    by blast
  with st'(1) have A: "\<exists>st' a0 a1. initVolumeTexture (demoRenderer 2 4) = Inr st' \<and>
       arrays (dev st') (d_volumeArrays st' ! 0) = Some a0 \<and> contents a0 = Some [0x12, 0x23] \<and>
       arrays (dev st') (d_volumeArrays st' ! 1) = Some a1 \<and> contents a1 = Some [0x12, 0x23]"
    by blast
  have r: "take 1 (getRaw (vd (demoRenderer 1 2)) 0) = [0x12]"
    "take 1 (getRaw (vd (demoRenderer 1 2)) 1) = [0xAB]"
    by (simp_all add: demoRenderer_def demoVolume_def)
  from one obtain st1 where st1: "initVolumeTexture (demoRenderer 1 2) = Inr st1"
    "\<forall>f. int f < 2 \<longrightarrow>
       (\<exists>a. arrays (dev st1) (d_volumeArrays st1 ! f) = Some a \<and>
            contents a = Some (take 1 (getRaw (vd (demoRenderer 1 2)) f)))"
    by blast
  from st1(2) f r have "\<exists>a0 a1.
       arrays (dev st1) (d_volumeArrays st1 ! 0) = Some a0 \<and> contents a0 = Some [0x12] \<and>
       arrays (dev st1) (d_volumeArrays st1 ! 1) = Some a1 \<and> contents a1 = Some [0xAB]"
    by metis
  with st1(1) have B: "\<exists>st' a0 a1. initVolumeTexture (demoRenderer 1 2) = Inr st' \<and>
       arrays (dev st') (d_volumeArrays st' ! 0) = Some a0 \<and> contents a0 = Some [0x12] \<and>
       arrays (dev st') (d_volumeArrays st' ! 1) = Some a1 \<and> contents a1 = Some [0xAB]"
    by blast
  from A B show ?thesis by blast
qed

text \<open>
  Claim C8, evaluated where it fails. The volume has two frames of one byte and the device
  has room for one. The allocation of frame 1 is refused: the loop stops, the flag
  \<^verbatim>\<open>_volumeCopyToGpuOk\<close> is false, and \<^verbatim>\<open>compositeVolume\<close> prints its message and
  launches nothing. But the array of frame 0 (handle 1) is handed to \<^verbatim>\<open>cudaFree\<close>, which
  does not release arrays, its pointer is then set to null, and the later
  \<^verbatim>\<open>cudaFreeArray\<close> loop only sees null pointers: the array stays allocated with its
  contents and the device has no byte more than before.
\<close>

theorem initVolumeTexture_failure_leaks:
  "\<exists>st'. initVolumeTexture (demoRenderer 1 1) = Inr st' \<and>
     \<not> volumeCopyToGpuOk st' \<and> d_volumeArrays st' = [0, 0] \<and>
     arrays (dev st') 1 = Some \<lparr> elemSize = 1, extent = (1, 1, 1), contents = Some [0x12] \<rparr> \<and>
     freeMem (dev st') = 0 \<and>
     compositeVolume st' vp w h =
       ([''vvRayRend::compositeVolume() aborted because of previous CUDA-Error''], None)"
  by (simp add: initVolumeTexture_def demoRenderer_def demoVolume_def resize_def
      uploadFrames.simps cudaMalloc3DArray_def cudaMemcpy3D_def cudaFree_def cudaFreeArray_def
      checkError_def frameSource_def volumeSize_def arrayBytes_def Let_def
      freeAfterFailure_def freeArrayAfterFailure_def compositeVolume_def upt_rec
      numeral_2_eq_2)

section \<open>Properties of the empty-space skipping\<close>






text \<open>
  Claim C6, evaluated where it fails. The innermost cell loop of
  \<^verbatim>\<open>calcSpaceSkippingGrid\<close> runs \<open>x\<close> up to \<^verbatim>\<open>h_numCells[2]\<close>, not
  \<^verbatim>\<open>h_numCells[0]\<close>. With 2 x 1 x 1 cells on a volume of 2 x 1 x 1 voxels only the cell
  \<open>x = 0\<close> is visited: the cell \<open>x = 1\<close>, which contains the voxel of value 9, keeps
  the unassigned elements of \<^verbatim>\<open>new int[numCells]\<close> as its minimum and maximum.
\<close>

theorem calcSpaceSkippingGrid_unwritten_cell:
  "\<exists>st'. calcSpaceSkippingGrid gridDemo = Inr st' \<and>
     h_cellMinValues st' = Some [Some 5, None] \<and>
     h_cellMaxValues st' = Some [Some 5, None]"
proof -
  have rep: "replicate 2 (None :: int option) = [None, None]"
    by (simp add: numeral_2_eq_2)
  show ?thesis
    by (simp add: calcSpaceSkippingGrid_def gridDemo_def demoRenderer_def demoVolume_def
        for_loop.simps cellBody_def cellMinMax_def scanVoxel_def c_div_def c_mod_def trunc_def
        INT_MAX_def Let_def rep)
qed

section \<open>Properties of the ray kernel\<close>

lemma render_writes:
  "render k env a x y fb =
     (case traceRay k env a x y of
        OutsideImage \<Rightarrow> fb
      | MissedBox \<Rightarrow> fb\<lparr> d_output := (d_output fb)(pixelIndex a x y := make_uchar4 0 0 0 0),
                          d_depth := (d_depth fb)(pixelIndex a x y := 0) \<rparr>
      | MissedSphere \<Rightarrow> fb\<lparr> d_output := (d_output fb)(pixelIndex a x y := make_uchar4 0 0 0 0) \<rparr>
      | Traced s \<Rightarrow> fb\<lparr> d_output := (d_output fb)(pixelIndex a x y := rgbaFloatToInt (rs_dst s)),
                         d_depth := (d_depth fb)(pixelIndex a x y :=
                                       emitDepth env a (maxDiffDepth s)) \<rparr>)"
  by (cases "dp a") (simp_all add: render_def Let_def split: outcome.splits)

lemma traceRay_inside:
  "x < width a \<Longrightarrow> y < height a \<Longrightarrow> traceRay k env a x y \<noteq> OutsideImage"
  by (auto simp: traceRay_def Let_def split: prod.splits)

text \<open>
  Claim C1. For a pixel inside the image whose ray misses the probe box
  (\<^verbatim>\<open>intersectBox\<close> returns false), the kernel stores \<open>(0, 0, 0, 0)\<close> in
  \<^verbatim>\<open>d_output[y * texwidth + x]\<close> and 0 in the depth buffer at the same index, for each
  of the three depth precisions, and changes nothing else: the result does not depend on
  the kernel's specialization, on the textures or on any argument of the stepping loop,
  so nothing is sampled or composited for the pixel.
\<close>

theorem render_miss:
  assumes "x < width a" and "y < height a" and "\<not> fst (probeHit env a x y)"
  shows "render k env a x y fb =
           fb\<lparr> d_output := (d_output fb)(pixelIndex a x y := make_uchar4 0 0 0 0),
               d_depth := (d_depth fb)(pixelIndex a x y := 0) \<rparr>"
proof -
  from assms have "traceRay k env a x y = MissedBox"
    by (auto simp: traceRay_def Let_def split: prod.splits)
  then show ?thesis by (simp add: render_writes)
qed

lemma pixelIndex_nat:
  assumes "x < width a" "y < height a"
    "unat (width a) \<le> unat (texwidth a)" "unat (height a) * unat (texwidth a) \<le> 2 ^ 32"
  shows "pixelIndex a x y = unat y * unat (texwidth a) + unat x"
proof -
  have x: "unat x < unat (texwidth a)" using assms(1,3) by (simp add: word_less_nat_alt)
  have y: "Suc (unat y) \<le> unat (height a)" using assms(2) by (simp add: word_less_nat_alt)
  have "Suc (unat y) * unat (texwidth a) \<le> unat (height a) * unat (texwidth a)"
    using y by (rule mult_le_mono1)
  with x assms(4) have lt: "unat y * unat (texwidth a) + unat x < 2 ^ 32" by simp
  then have "unat y * unat (texwidth a) < 2 ^ LENGTH(32)" by simp
  then have m: "unat (y * texwidth a) = unat y * unat (texwidth a)"
    by (simp only: unat_mult_lem)
  with lt have "unat (y * texwidth a) + unat x < 2 ^ LENGTH(32)" by simp
  then have "unat (y * texwidth a + x) = unat (y * texwidth a) + unat x"
    by (simp only: unat_add_lem)
  with m show ?thesis by (simp add: pixelIndex_def)
qed

lemma pixelIndex_inj:
  assumes "x < width a" "y < height a" "x' < width a" "y' < height a"
    "unat (width a) \<le> unat (texwidth a)" "unat (height a) * unat (texwidth a) \<le> 2 ^ 32"
    "pixelIndex a x y = pixelIndex a x' y'"
  shows "x = x' \<and> y = y'"
proof -
  let ?w = "unat (texwidth a)"
  have x: "unat x < ?w" "unat x' < ?w" using assms(1,3,5) by (simp_all add: word_less_nat_alt)
  have e: "unat y * ?w + unat x = unat y' * ?w + unat x'"
    using assms pixelIndex_nat [of x a y] pixelIndex_nat [of x' a y'] by simp
  from e x have "(unat y * ?w + unat x) div ?w = (unat y' * ?w + unat x') div ?w" by simp
  with x have yy: "unat y = unat y'" by simp
  with e have "unat x = unat x'" by simp
  with yy show ?thesis by (simp add: word_unat_eq_iff)
qed

text \<open>
  What a thread writes does not depend on what the buffers held before: the pixel always,
  and the depth value unless the thread leaves at the clip sphere used as probe, where it
  writes none. With the image not wider than the buffer row and the index arithmetic not
  wrapping around, the threads of two pixels write different elements and commute.
\<close>

lemma render_written_values:
  assumes "x < width a" and "y < height a" and "x' < width a" and "y' < height a"
    and "unat (width a) \<le> unat (texwidth a)"
    and "unat (height a) * unat (texwidth a) \<le> 2 ^ 32"
  shows "d_output (render k env a x y fb) (pixelIndex a x y)
           = d_output (render k env a x y fb') (pixelIndex a x y) \<and>
         (traceRay k env a x y \<noteq> MissedSphere \<longrightarrow>
            d_depth (render k env a x y fb) (pixelIndex a x y)
              = d_depth (render k env a x y fb') (pixelIndex a x y)) \<and>
         render k env a x y (render k env a x' y' fb)
           = render k env a x' y' (render k env a x y fb)"
proof (intro conjI impI)
  have ins: "traceRay k env a x y \<noteq> OutsideImage"
    using assms(1,2) by (rule traceRay_inside)
  show "d_output (render k env a x y fb) (pixelIndex a x y)
           = d_output (render k env a x y fb') (pixelIndex a x y)"
    using ins by (cases "traceRay k env a x y") (simp_all add: render_writes)
  show "d_depth (render k env a x y fb) (pixelIndex a x y)
              = d_depth (render k env a x y fb') (pixelIndex a x y)"
    if "traceRay k env a x y \<noteq> MissedSphere"
    using ins that by (cases "traceRay k env a x y") (simp_all add: render_writes)
  show "render k env a x y (render k env a x' y' fb)
           = render k env a x' y' (render k env a x y fb)"
  proof (cases "x = x' \<and> y = y'")
    case True
    then show ?thesis by simp
  next
    case False
    with pixelIndex_inj [OF assms(1,2,3,4,5,6)]
    have ne: "pixelIndex a x y \<noteq> pixelIndex a x' y'" by blast
    show ?thesis
      using ne
      by (cases "traceRay k env a x y"; cases "traceRay k env a x' y'")
         (simp_all add: render_writes fun_upd_twist)
  qed
qed

lemma renderLoop_invariant:
  assumes "P s"
    and "\<And>s b s'. P s \<Longrightarrow> loopBody k env a c s = (b, s') \<Longrightarrow> P s'"
  shows "P (renderLoop k env a c i s)"
  using assms(1)
proof (induction "maxSteps - i" arbitrary: i s)
  case 0
  then have "\<not> i < maxSteps" by simp
  with "0.prems" show ?case by (simp add: renderLoop.simps)
next
  case (Suc n)
  then have lt: "i < maxSteps" by simp
  obtain b s' where body: "loopBody k env a c s = (b, s')" by (cases "loopBody k env a c s")
  with Suc.prems have P': "P s'" by (rule assms(2))
  show ?case
  proof (cases b)
    case True
    with lt body P' show ?thesis by (subst renderLoop.simps) simp
  next
    case False
    have "P (renderLoop k env a c (i + 1) s')"
      using Suc.hyps(2) P' by (intro Suc.hyps(1)) simp_all
    with False lt body show ?thesis by (subst renderLoop.simps) simp
  qed
qed

lemma advance_keeps:
  "advance a c s = (b, s') \<Longrightarrow> rs_dst s' = rs_dst s \<and> samples s' = samples s"
  by (auto simp: advance_def Let_def split: if_splits)

lemma sampleStep_dst:
  assumes "sampleStep k env a c tc s = (b, s')"
  shows "rs_dst s' =
           composite k
             (premultiply k (opacityCorrect k a
                (illuminate k env a s tc (tex1D_tfTexture env (volume k env tc)))))
             (mipUpdate k (tex1D_tfTexture env (volume k env tc)) (rs_dst s))"
    and "samples s' = Suc (samples s)"
  using assms by (auto simp: sampleStep_def Let_def split: if_splits)

lemma loopBody_cases:
  assumes "loopBody k env a c s = (b, s')"
  obtains (clipped) "rs_dst s' = rs_dst s" "samples s' = samples s"
  | (sampled) tc where "sampleStep k env a c tc s = (b, s')"
proof (cases "\<exists>tc. sampleStep k env a c tc s = (b, s')")
  case True
  then show ?thesis using sampled by blast
next
  case False
  with assms have "\<exists>s0. advance a c s0 = (b, s') \<and> rs_dst s0 = rs_dst s \<and> samples s0 = samples s"
    by (auto simp: loopBody_def Let_def split: if_splits)
  then show ?thesis using clipped advance_keeps by metis
qed

lemma w4_blinnPhong [simp]:
  "w4 (blinnPhong k env cl pos L H Ka Kd Ks sh n) = w4 cl"
  by (simp add: blinnPhong_def Let_def)

lemma w4_illuminate [simp]: "w4 (illuminate k env a s tc src) = w4 src"
  by (simp add: illuminate_def Let_def)

lemma w4_premultiply [simp]: "w4 (premultiply k src) = w4 src"
  by (simp add: premultiply_def)

lemma w4_composite:
  "w4 (composite k src dst) =
     (if t_frontToBack k \<and> t_mipMode k = 0
      then fadd (w4 dst) (fmul (w4 src) (fsub (Fin 1) (w4 dst))) else w4 dst)"
  by (simp add: composite_def f4add_def f4scale_def)

lemma clamp_Fin: "\<exists>c. clamp f = Fin c \<and> 0 \<le> c \<and> c \<le> 1"
  by (cases f) (auto simp: clamp_def fminf_def fmaxf_def)

lemma alpha_byte:
  assumes "clamp f = Fin c"
  shows "unat (of_nat (f2uint 8 (fmul (clamp f) (Fin 255))) :: uchar) = nat \<lfloor>c * 255\<rfloor>"
    and "(of_nat (f2uint 8 (fmul (clamp f) (Fin 255))) :: uchar) = 255 \<longleftrightarrow> c = 1"
proof -
  from clamp_Fin [of f] assms have c: "0 \<le> c" "c \<le> 1" by auto
  then have b: "0 \<le> c * 255" "c * 255 \<le> 255" by simp_all
  from b(2) have "\<lfloor>c * 255\<rfloor> \<le> \<lfloor>255 :: real\<rfloor>" by (rule floor_mono)
  then have fl2: "\<lfloor>c * 255\<rfloor> \<le> 255" by simp
  from b(1) have fl1: "0 \<le> \<lfloor>c * 255\<rfloor>" by (simp only: zero_le_floor)
  note fl = fl1 fl2
  from fl2 have n: "nat \<lfloor>c * 255\<rfloor> \<le> 255" by linarith
  have v: "f2uint 8 (fmul (clamp f) (Fin 255)) = nat \<lfloor>c * 255\<rfloor>"
    using assms c n by (simp add: trunc_def)
  show u: "unat (of_nat (f2uint 8 (fmul (clamp f) (Fin 255))) :: uchar) = nat \<lfloor>c * 255\<rfloor>"
    using n by (simp add: v unat_of_nat)
  have "(of_nat (f2uint 8 (fmul (clamp f) (Fin 255))) :: uchar) = 255
          \<longleftrightarrow> unat (of_nat (f2uint 8 (fmul (clamp f) (Fin 255))) :: uchar) = 255"
    by (simp add: word_unat_eq_iff)
  also have "\<dots> \<longleftrightarrow> \<lfloor>c * 255\<rfloor> = 255" using fl by (simp add: u nat_eq_iff)
  also have "\<dots> \<longleftrightarrow> c = 1"
  proof
    assume "\<lfloor>c * 255\<rfloor> = 255"
    then have "255 \<le> c * 255" by (simp add: floor_eq_iff)
    with c show "c = 1" by simp
  next
    assume "c = 1" then show "\<lfloor>c * 255\<rfloor> = 255" by simp
  qed
  finally show "(of_nat (f2uint 8 (fmul (clamp f) (Fin 255))) :: uchar) = 255 \<longleftrightarrow> c = 1" .
qed

lemma traceRay_Traced:
  assumes "traceRay k env a x y = Traced s"
  shows "\<exists>c s0. s = renderLoop k env a c 0 s0 \<and> samples s0 = 0 \<and>
           rs_dst s0 = (if 0 < t_mipMode k then backgroundColor a
                        else make_float4 (Fin 0) (Fin 0) (Fin 0) (Fin 0))"
proof -
  from assms obtain c s0 where "s = renderLoop k env a c 0 s0"
    and "\<exists>r t. s0 = initialState k env a x y r t"
    by (auto simp: traceRay_def Let_def split: if_splits prod.splits)
  moreover from this(2) have "samples s0 = 0"
    "rs_dst s0 = (if 0 < t_mipMode k then backgroundColor a
                  else make_float4 (Fin 0) (Fin 0) (Fin 0) (Fin 0))"
    by (auto simp: initialState_def Let_def)
  ultimately show ?thesis by blast
qed

lemma mip_sample_alpha:
  assumes "t_mipMode k = 1" and "sampleStep k env a c tc s = (b, s')"
  shows "w4 (rs_dst s') = Fin 1"
  using assms by (simp add: sampleStep_dst w4_composite mipUpdate_def)

lemma mip_loop_alpha:
  assumes "t_mipMode k = 1" and "0 < samples s \<longrightarrow> w4 (rs_dst s) = Fin 1"
  shows "0 < samples (renderLoop k env a c i s) \<longrightarrow>
           w4 (rs_dst (renderLoop k env a c i s)) = Fin 1"
proof (rule renderLoop_invariant [where P = "\<lambda>s. 0 < samples s \<longrightarrow> w4 (rs_dst s) = Fin 1"])
  show "0 < samples s \<longrightarrow> w4 (rs_dst s) = Fin 1" by (rule assms(2))
  fix s b s'
  assume P: "0 < samples s \<longrightarrow> w4 (rs_dst s) = Fin 1" and body: "loopBody k env a c s = (b, s')"
  from body show "0 < samples s' \<longrightarrow> w4 (rs_dst s') = Fin 1"
  proof (cases rule: loopBody_cases)
    case clipped
    with P show ?thesis by simp
  next
    case (sampled tc)
    with assms(1) show ?thesis by (simp add: mip_sample_alpha)
  qed
qed

text \<open>
  Claim C4. In MIP MAX mode (\<^verbatim>\<open>t_mipMode = 1\<close>), whatever the other flags of the
  specialization (opacity correction among them), a ray whose loop takes at least one
  sample, neither clipped nor skipped, ends with \<^verbatim>\<open>dst.w\<close> exactly 1, and the
  alpha byte the kernel stores for the pixel is exactly 255.
\<close>

theorem mipMax_alpha_one:
  assumes "t_mipMode k = 1" and "traceRay k env a x y = Traced s" and "0 < samples s"
  shows "w4 (rs_dst s) = Fin 1 \<and>
         uw (d_output (render k env a x y fb) (pixelIndex a x y)) = 255"
proof -
  from traceRay_Traced [OF assms(2)] obtain c s0
    where s: "s = renderLoop k env a c 0 s0" and s0: "samples s0 = 0" by blast
  from mip_loop_alpha [OF assms(1), of s0 env a c 0] s0 s assms(3)
  have w: "w4 (rs_dst s) = Fin 1" by simp
  have cl: "clamp (Fin 1) = Fin 1" by (simp add: clamp_def fminf_def fmaxf_def)
  have "uw (rgbaFloatToInt (rs_dst s)) = 255"
    using alpha_byte(2) [of "Fin 1" 1] cl w by (simp add: rgbaFloatToInt_def)
  with w assms(2) show ?thesis by (simp add: render_writes)
qed

lemma blend_le_one:
  fixes d c :: real
  assumes "d \<le> 1" and "c \<le> 1"
  shows "d + c * (1 - d) \<le> 1"
proof -
  have "0 \<le> (1 - d) * (1 - c)" using assms by simp
  then show ?thesis by (simp add: algebra_simps)
qed

lemma le1_composite:
  assumes "\<not> fgt d (Fin 1)" and "\<not> fgt sw (Fin 1)"
  shows "\<not> fgt (fadd d (fmul sw (fsub (Fin 1) d))) (Fin 1)"
proof (cases d)
  case (Fin x)
  with assms(1) have x: "x \<le> 1" by (simp add: fgt_def)
  show ?thesis
  proof (cases sw)
    case (Fin c)
    with assms(2) have "c \<le> 1" by (simp add: fgt_def)
    with x have "x + c * (1 - x) \<le> 1" by (rule blend_le_one)
    with Fin \<open>d = Fin x\<close> show ?thesis by (simp add: fgt_def fsub_def)
  next
    case PInf
    with assms(2) show ?thesis by (simp add: fgt_def)
  next
    case MInf
    with \<open>d = Fin x\<close> x show ?thesis by (simp add: fgt_def fsub_def)
  next
    case NaN
    with \<open>d = Fin x\<close> show ?thesis by (simp add: fgt_def fsub_def)
  qed
next
  case PInf
  with assms(1) show ?thesis by (simp add: fgt_def)
next
  case MInf
  then show ?thesis by (cases sw) (simp_all add: fgt_def fsub_def)
next
  case NaN
  then show ?thesis by (cases sw) (simp_all add: fgt_def fsub_def)
qed

lemma powf_unit_nonneg:
  assumes "0 \<le> b" and "b \<le> 1"
  shows "powf (Fin b) e = NaN \<or> powf (Fin b) e = PInf \<or> (\<exists>p. powf (Fin b) e = Fin p \<and> 0 \<le> p)"
proof (cases e)
  case (Fin y)
  then show ?thesis using assms by (cases "b = 0") auto
qed (use assms in auto)

lemma le1_opacity:
  assumes "0 \<le> al" and "al \<le> 1"
  shows "\<not> fgt (fsub (Fin 1) (powf (fsub (Fin 1) (Fin al)) e)) (Fin 1)"
proof -
  have b: "fsub (Fin 1) (Fin al) = Fin (1 - al)" by (simp add: fsub_def)
  from assms have "0 \<le> 1 - al" "1 - al \<le> 1" by simp_all
  from powf_unit_nonneg [OF this, of e] show ?thesis
    by (auto simp: b fsub_def fgt_def)
qed

lemma none_sample_alpha:
  assumes "t_mipMode k = 0"
    and "\<forall>c. \<exists>al. w4 (tex1D_tfTexture env c) = Fin al \<and> 0 \<le> al \<and> al \<le> 1"
    and "\<not> fgt (w4 (rs_dst s)) (Fin 1)"
    and "sampleStep k env a c tc s = (b, s')"
  shows "\<not> fgt (w4 (rs_dst s')) (Fin 1)"
proof -
  let ?src = "tex1D_tfTexture env (volume k env tc)"
  from assms(2) obtain al where al: "w4 ?src = Fin al" "0 \<le> al" "al \<le> 1" by blast
  have sw: "\<not> fgt (w4 (opacityCorrect k a (illuminate k env a s tc ?src))) (Fin 1)"
    using al le1_opacity [OF al(2,3)] by (simp add: opacityCorrect_def fgt_def)
  have d: "mipUpdate k ?src (rs_dst s) = rs_dst s" using assms(1) by (simp add: mipUpdate_def)
  show ?thesis
    using le1_composite [OF assms(3) sw] assms(3)
    by (simp add: sampleStep_dst [OF assms(4)] w4_composite d)
qed

lemma none_body_alpha:
  assumes "t_mipMode k = 0"
    and "\<forall>c. \<exists>al. w4 (tex1D_tfTexture env c) = Fin al \<and> 0 \<le> al \<and> al \<le> 1"
    and "\<not> fgt (w4 (rs_dst s)) (Fin 1)"
    and "loopBody k env a c s = (b, s')"
  shows "\<not> fgt (w4 (rs_dst s')) (Fin 1)"
  using assms(4)
proof (cases rule: loopBody_cases)
  case clipped
  with assms(3) show ?thesis by simp
next
  case (sampled tc)
  with assms(1,2,3) show ?thesis by (rule none_sample_alpha)
qed

text \<open>
  Claim C2. In NONE compositing mode (\<^verbatim>\<open>t_mipMode = 0\<close>) with a transfer-function
  texture whose alpha lies in \<open>[0, 1]\<close> at every coordinate, and for every setting of
  lighting, opacity correction and step distance: a pass of the loop keeps
  \<^verbatim>\<open>dst.w > 1.0\<close> false, and so does the loop from any pass on and the ray the kernel
  traces from \<open>(0, 0, 0, 0)\<close>. The alpha byte of \<^verbatim>\<open>rgbaFloatToInt\<close> is the
  integer part of 255 times the clamped alpha, at most 255, and is 255 exactly when the
  clamped alpha is 1.
\<close>

theorem none_alpha_bounded:
  assumes "t_mipMode k = 0"
    and "\<forall>c. \<exists>al. w4 (tex1D_tfTexture env c) = Fin al \<and> 0 \<le> al \<and> al \<le> 1"
  shows "(\<not> fgt (w4 (rs_dst s)) (Fin 1) \<longrightarrow>
            \<not> fgt (w4 (rs_dst (snd (loopBody k env a c s)))) (Fin 1) \<and>
            \<not> fgt (w4 (rs_dst (renderLoop k env a c i s))) (Fin 1)) \<and>
         (traceRay k env a x y = Traced s' \<longrightarrow> \<not> fgt (w4 (rs_dst s')) (Fin 1)) \<and>
         (\<exists>al. clamp (w4 rgba) = Fin al \<and> 0 \<le> al \<and> al \<le> 1 \<and>
               unat (uw (rgbaFloatToInt rgba)) = nat \<lfloor>al * 255\<rfloor> \<and>
               unat (uw (rgbaFloatToInt rgba)) \<le> 255 \<and>
               (uw (rgbaFloatToInt rgba) = 255 \<longleftrightarrow> al = 1))"
proof (intro conjI impI)
  assume s: "\<not> fgt (w4 (rs_dst s)) (Fin 1)"
  show "\<not> fgt (w4 (rs_dst (snd (loopBody k env a c s)))) (Fin 1)"
    using none_body_alpha [OF assms s, of a c "fst (loopBody k env a c s)"] by simp
  show "\<not> fgt (w4 (rs_dst (renderLoop k env a c i s))) (Fin 1)"
    by (rule renderLoop_invariant [where P = "\<lambda>s. \<not> fgt (w4 (rs_dst s)) (Fin 1)"])
       (use s none_body_alpha [OF assms] in blast)+
next
  assume "traceRay k env a x y = Traced s'"
  from traceRay_Traced [OF this] assms(1) obtain c s0
    where s': "s' = renderLoop k env a c 0 s0"
      and s0: "rs_dst s0 = make_float4 (Fin 0) (Fin 0) (Fin 0) (Fin 0)"
    by auto
  from s0 have "\<not> fgt (w4 (rs_dst s0)) (Fin 1)" by (simp add: fgt_def)
  then have "\<not> fgt (w4 (rs_dst (renderLoop k env a c 0 s0))) (Fin 1)"
    by (rule renderLoop_invariant [where P = "\<lambda>s. \<not> fgt (w4 (rs_dst s)) (Fin 1)"])
       (use none_body_alpha [OF assms] in blast)
  with s' show "\<not> fgt (w4 (rs_dst s')) (Fin 1)" by simp
next
  from clamp_Fin [of "w4 rgba"] obtain al
    where al: "clamp (w4 rgba) = Fin al" "0 \<le> al" "al \<le> 1" by blast
  have u: "unat (uw (rgbaFloatToInt rgba)) = nat \<lfloor>al * 255\<rfloor>"
    and e: "uw (rgbaFloatToInt rgba) = 255 \<longleftrightarrow> al = 1"
    using alpha_byte [OF al(1)] by (simp_all add: rgbaFloatToInt_def)
  have "unat (uw (rgbaFloatToInt rgba)) \<le> 255"
    using unsigned_less [of "uw (rgbaFloatToInt rgba)", where 'a = nat] by simp
  with al u e show "\<exists>al. clamp (w4 rgba) = Fin al \<and> 0 \<le> al \<and> al \<le> 1 \<and>
               unat (uw (rgbaFloatToInt rgba)) = nat \<lfloor>al * 255\<rfloor> \<and>
               unat (uw (rgbaFloatToInt rgba)) \<le> 255 \<and>
               (uw (rgbaFloatToInt rgba) = 255 \<longleftrightarrow> al = 1)"
    by blast
qed

lemma demo_ray:
  "generateRay demoEnv (demoArgs p) 1 1 =
     \<lparr> ray_o = make_float3 (Fin 0) (Fin 0) (Fin (- 1)),
       ray_d = make_float3 (Fin 0) (Fin 0) (Fin 1) \<rparr>"
  by (simp add: generateRay_def demoEnv_def demoArgs_def idMatrix_def mulPost_def
      perspectiveDivide_def normalize3_def f3sub_def f3scale_def dot_def rsqrtf_def fsub_def
      Let_def)

lemma demo_box:
  "f3sub (probePos (demoArgs p)) (probeSizeHalf (demoArgs p))
     = make_float3 (Fin (p - 1)) (Fin (p - 1)) (Fin (p - 1))"
  "f3add (probePos (demoArgs p)) (probeSizeHalf (demoArgs p))
     = make_float3 (Fin (p + 1)) (Fin (p + 1)) (Fin (p + 1))"
  by (simp_all add: demoArgs_def f3sub_def f3add_def fsub_def)

lemma demo_miss: "probeHit demoEnv (demoArgs 5) 1 1 = (False, PInf, Fin 7)"
  by (simp add: probeHit_def demo_ray demo_box intersectBox_def f3div_def fsub_def
      fminf_def fmaxf_def fge_def fle_def)

lemma demo_hit: "probeHit demoEnv (demoArgs 0) 1 1 = (True, Fin 0, Fin 2)"
  by (simp add: probeHit_def demo_ray demo_box intersectBox_def f3div_def fsub_def
      fminf_def fmaxf_def fge_def fle_def)

lemma demo_start:
  "quantizeNear (demoArgs 0) (Fin 0) = Fin 0"
  "rayContext (demoKernel m) (demoArgs 0) (generateRay demoEnv (demoArgs 0) 1 1) (Fin 2)
     = \<lparr> rc_tfar = Fin 2, rc_tsnear = NaN, rc_tsfar = NaN, rc_tpnear = NaN, rc_nddot = NaN,
         rc_step = make_float3 (Fin 0) (Fin 0) (Fin 1) \<rparr>"
  "initialState (demoKernel m) demoEnv (demoArgs 0) 1 1 (generateRay demoEnv (demoArgs 0) 1 1) (Fin 0)
     = \<lparr> rs_t = Fin 0, rs_pos = make_float3 (Fin 0) (Fin 0) (Fin (- 1)),
         rs_dst = make_float4 (Fin 0) (Fin 0) (Fin 0) (Fin 0), justClippedPlane = False,
         justClippedSphere = False, maxDiff = Fin 0,
         maxDiffDepth = make_float3 (Fin 0) (Fin 0) (Fin 0), lastAlpha = Fin 0, samples = 0 \<rparr>"
  unfolding demo_ray
  by (simp_all add: quantizeNear_def rayContext_def initialState_def demoKernel_def
      demoArgs_def fne_def trunc_def f3scale_def f3add_def Let_def)

lemma demo_body:
  "loopBody (demoKernel 1) demoEnv (demoArgs 0)
     \<lparr> rc_tfar = Fin 2, rc_tsnear = NaN, rc_tsfar = NaN, rc_tpnear = NaN, rc_nddot = NaN,
       rc_step = make_float3 (Fin 0) (Fin 0) (Fin 1) \<rparr>
     \<lparr> rs_t = Fin 0, rs_pos = make_float3 (Fin 0) (Fin 0) (Fin (- 1)),
       rs_dst = make_float4 (Fin 0) (Fin 0) (Fin 0) (Fin 0), justClippedPlane = False,
       justClippedSphere = False, maxDiff = Fin 0,
       maxDiffDepth = make_float3 (Fin 0) (Fin 0) (Fin 0), lastAlpha = Fin 0, samples = 0 \<rparr>
   = (False,
     \<lparr> rs_t = Fin 1, rs_pos = make_float3 (Fin 0) (Fin 0) (Fin 0),
       rs_dst = make_float4 (Fin 1) (Fin 1) (Fin 0) (Fin 1), justClippedPlane = False,
       justClippedSphere = False, maxDiff = Fin 1,
       maxDiffDepth = make_float3 (Fin 0) (Fin 0) (Fin 0), lastAlpha = Fin 1, samples = Suc 0 \<rparr>)"
  by (simp add: loopBody_def sampleStep_def demoKernel_def demoEnv_def demoArgs_def skipSpace_def
      volume_def mipUpdate_def illuminate_def opacityCorrect_def premultiply_def composite_def
      fmaxf_def fgt_def fsub_def f3add_def Let_def)

lemma demo_trace:
  "traceRay (demoKernel m) demoEnv (demoArgs 0) 1 1
     = Traced (renderLoop (demoKernel m) demoEnv (demoArgs 0) demoContext 0 demoState)"
proof -
  have w: "\<not> (width (demoArgs 0) \<le> 1 \<or> height (demoArgs 0) \<le> 1)"
    by (simp add: demoArgs_def word_le_nat_alt)
  have c: "\<not> t_clipSphere (demoKernel m)" by (simp add: demoKernel_def)
  show ?thesis
    using w c by (simp add: traceRay_def demo_hit demo_start demoContext_def demoState_def)
qed

lemma samples_mono:
  assumes "loopBody k env a c s = (b, s')"
  shows "samples s \<le> samples s'"
  using assms by (cases rule: loopBody_cases) (simp_all add: sampleStep_dst)

lemma renderLoop_samples:
  "n \<le> samples s \<Longrightarrow> n \<le> samples (renderLoop k env a c i s)"
  by (rule renderLoop_invariant [where P = "\<lambda>s. n \<le> samples s"])
     (use samples_mono in \<open>fastforce+\<close>)

lemma demo_sampled:
  "0 < samples (renderLoop (demoKernel 1) demoEnv (demoArgs 0) demoContext 0 demoState)"
proof -
  let ?s1 = "\<lparr> rs_t = Fin 1, rs_pos = make_float3 (Fin 0) (Fin 0) (Fin 0),
       rs_dst = make_float4 (Fin 1) (Fin 1) (Fin 0) (Fin 1), justClippedPlane = False,
       justClippedSphere = False, maxDiff = Fin 1,
       maxDiffDepth = make_float3 (Fin 0) (Fin 0) (Fin 0), lastAlpha = Fin 1, samples = Suc 0 \<rparr>"
  have "renderLoop (demoKernel 1) demoEnv (demoArgs 0) demoContext 0 demoState
          = renderLoop (demoKernel 1) demoEnv (demoArgs 0) demoContext 1 ?s1"
    by (subst renderLoop.simps) (simp add: maxSteps_def demoContext_def demoState_def demo_body)
  moreover have "1 \<le> samples (renderLoop (demoKernel 1) demoEnv (demoArgs 0) demoContext 1 ?s1)"
    by (rule renderLoop_samples) simp
  ultimately show ?thesis by simp
qed

theorem render_miss_witness:
  "(1 :: 32 word) < width (demoArgs 5) \<and> (1 :: 32 word) < height (demoArgs 5) \<and>
   \<not> fst (probeHit demoEnv (demoArgs 5) 1 1) \<and>
   render (demoKernel 0) demoEnv (demoArgs 5) 1 1 demoBuffer =
     demoBuffer\<lparr> d_output := (d_output demoBuffer)(3 := make_uchar4 0 0 0 0),
                 d_depth := (d_depth demoBuffer)(3 := 0) \<rparr>"
proof -
  have a: "(1 :: 32 word) < width (demoArgs 5)" "(1 :: 32 word) < height (demoArgs 5)"
    by (simp_all add: demoArgs_def word_less_nat_alt)
  have b: "\<not> fst (probeHit demoEnv (demoArgs 5) 1 1)" by (simp add: demo_miss)
  have i: "pixelIndex (demoArgs 5) 1 1 = 3" by (simp add: pixelIndex_def demoArgs_def)
  from render_miss [OF a b, of "demoKernel 0" demoBuffer] a b i show ?thesis by simp
qed

theorem mipMax_alpha_one_witness:
  "t_mipMode (demoKernel 1) = 1 \<and>
   (\<exists>s. traceRay (demoKernel 1) demoEnv (demoArgs 0) 1 1 = Traced s \<and> 0 < samples s \<and>
        w4 (rs_dst s) = Fin 1) \<and>
   uw (d_output (render (demoKernel 1) demoEnv (demoArgs 0) 1 1 demoBuffer)
        (pixelIndex (demoArgs 0) 1 1)) = 255"
proof -
  have m: "t_mipMode (demoKernel 1) = 1" by (simp add: demoKernel_def)
  from mipMax_alpha_one [OF m demo_trace demo_sampled, of demoBuffer] m demo_trace demo_sampled
  show ?thesis by simp
qed

theorem none_alpha_bounded_witness:
  "t_mipMode (demoKernel 0) = 0 \<and>
   \<not> fgt (w4 (rs_dst demoState)) (Fin 1) \<and>
   \<not> fgt (w4 (rs_dst (snd (loopBody (demoKernel 0) demoEnv (demoArgs 0) demoContext demoState))))
         (Fin 1) \<and>
   (\<exists>s. traceRay (demoKernel 0) demoEnv (demoArgs 0) 1 1 = Traced s \<and>
        \<not> fgt (w4 (rs_dst s)) (Fin 1)) \<and>
   uw (rgbaFloatToInt (make_float4 (Fin 1) (Fin 1) (Fin 0) (Fin (3 / 2)))) = 255"
proof -
  let ?k = "demoKernel 0"
  let ?rgba = "make_float4 (Fin 1) (Fin 1) (Fin 0) (Fin (3 / 2))"
  have m: "t_mipMode ?k = 0" by (simp add: demoKernel_def)
  have tf: "\<forall>c. \<exists>al. w4 (tex1D_tfTexture demoEnv c) = Fin al \<and> 0 \<le> al \<and> al \<le> 1"
    by (auto simp: demoEnv_def intro: exI [of _ "1 / 2"])
  have s0: "\<not> fgt (w4 (rs_dst demoState)) (Fin 1)" by (simp add: demoState_def fgt_def)
  have cl: "clamp (w4 ?rgba) = Fin 1" by (simp add: clamp_def fminf_def fmaxf_def)
  from none_alpha_bounded [OF m tf, of demoState "demoArgs 0" demoContext 0 1 1
      "renderLoop ?k demoEnv (demoArgs 0) demoContext 0 demoState" ?rgba]
    m s0 cl demo_trace [of 0]
  show ?thesis by auto
qed

lemma sphere_ray:
  "generateRay demoEnv sphereArgs 1 1 =
     \<lparr> ray_o = make_float3 (Fin 0) (Fin 0) (Fin (- 1)),
       ray_d = make_float3 (Fin 0) (Fin 0) (Fin 1) \<rparr>"
  using demo_ray [of 0] by (simp add: generateRay_def sphereArgs_def)

lemma sphere_box_hit: "probeHit demoEnv sphereArgs 1 1 = (True, Fin 0, Fin 2)"
  using demo_hit by (simp add: probeHit_def generateRay_def sphereArgs_def)

lemma sphere_missed:
  "intersectSphere (generateRay demoEnv sphereArgs 1 1) (sphereCenter sphereArgs)
     (sphereRadius sphereArgs) = (False, NaN, NaN)"
  unfolding sphere_ray
  by (simp add: intersectSphere_def solveQuadraticEquation_def sphereArgs_def demoArgs_def
      f3sub_def fsub_def fgt_def Let_def)

lemma sphere_kernel:
  "getKernel sphereRenderer =
     \<lparr> t_earlyRayTermination = True, t_spaceSkipping = True, t_frontToBack = True,
       t_bpc = 1, t_mipMode = 0, t_lighting = False, t_opacityCorrection = True,
       t_jittering = False, t_clipPlane = False, t_clipSphere = True,
       t_useSphereAsProbe = True \<rparr>"
  by (simp add: getKernel_def getKernelWithBpc_def getKernelWithIllumination_def
      getKernelWithOpacityCorrection_def getKernelWithEarlyRayTermination_def
      getKernelWithClipPlane_def getKernelWithSphereAsProbe_def getKernelWithMip_def
      sphereRenderer_def demoRenderer_def demoVolume_def)

lemma sphere_trace: "traceRay (getKernel sphereRenderer) demoEnv sphereArgs 1 1 = MissedSphere"
proof -
  have w: "\<not> (width sphereArgs \<le> 1 \<or> height sphereArgs \<le> 1)"
    by (simp add: sphereArgs_def demoArgs_def word_le_nat_alt)
  show ?thesis
    using w by (simp add: traceRay_def sphere_box_hit sphere_missed sphere_kernel)
qed

text \<open>
  Claim C9, evaluated where it fails. The renderer has a spherical region of interest, so
  the dispatcher chooses the kernel with \<^verbatim>\<open>t_clipSphere\<close> and
  \<^verbatim>\<open>t_useSphereAsProbe\<close>. The ray of pixel \<open>(1, 1)\<close> meets the probe box and misses
  the sphere: the thread stores \<open>(0, 0, 0, 0)\<close> in \<^verbatim>\<open>d_output\<close> and returns (lines
  360-364) without a store to \<^verbatim>\<open>d_depth\<close>, which the exit for a missed probe box
  (lines 323-339) has. The depth element of the pixel keeps what the buffer held before the
  launch, here 7 in one run and 5 in the other, with every input of the claim the same in
  both runs. The buffer is memory from \<^verbatim>\<open>cudaMalloc\<close> that the host never
  initialises (lines 950-961).
\<close>

theorem render_sphere_miss_depth:
  "t_clipSphere (getKernel sphereRenderer) \<and> t_useSphereAsProbe (getKernel sphereRenderer) \<and>
   traceRay (getKernel sphereRenderer) demoEnv sphereArgs 1 1 = MissedSphere \<and>
   pixelIndex sphereArgs 1 1 = 3 \<and>
   d_output (render (getKernel sphereRenderer) demoEnv sphereArgs 1 1 demoBuffer) 3
     = make_uchar4 0 0 0 0 \<and>
   d_depth (render (getKernel sphereRenderer) demoEnv sphereArgs 1 1 demoBuffer) 3 = 7 \<and>
   d_depth (render (getKernel sphereRenderer) demoEnv sphereArgs 1 1
              (demoBuffer\<lparr> d_depth := (\<lambda>i. 5) \<rparr>)) 3 = 5"
proof -
  have i: "pixelIndex sphereArgs 1 1 = 3"
    by (simp add: pixelIndex_def sphereArgs_def demoArgs_def)
  have k: "t_clipSphere (getKernel sphereRenderer)" "t_useSphereAsProbe (getKernel sphereRenderer)"
    by (simp_all add: sphere_kernel)
  show ?thesis
    using i k by (simp add: render_writes sphere_trace demoBuffer_def)
qed

end
